theory Spec2Isabelle
  imports
    Complex_Main
    "HOL-Library.AList"
    "HOL-Library.Multiset"
    "HOL-Library.Char_ord"
    "HOL-Library.List_Lexorder"
    "HOL-Library.Product_Lexorder"
begin

section \<open>Double-entry accounting: the ledger of the repository, embedded in HOL\<close>

text \<open>
  The repository holds three implementations of the same ledger:
  \<^item> \<^verbatim>\<open>app.py\<close>, the web application: accounts keyed by name, entries with
    amount, description and date, a transaction history, reports;
  \<^item> \<^verbatim>\<open>models.py\<close>, a stand-alone \<^verbatim>\<open>Account\<close> class with plain amount lists;
  \<^item> \<^verbatim>\<open>double_entry.py\<close>, the console application: accounts keyed by code, journal
    entries with lines, closing and depreciation.
  and \<^verbatim>\<open>storage.py\<close>, which saves and loads the state of \<^verbatim>\<open>app.py\<close>.

  Conventions of the embedding.
  \<^item> A finite Python \<^verbatim>\<open>Decimal\<close> is its exact rational value (\<open>rat\<close>). The
    constructor and the comparisons are exact. Every arithmetic operation
    (\<^verbatim>\<open>+\<close>, \<^verbatim>\<open>-\<close>, unary \<^verbatim>\<open>-\<close>, \<^verbatim>\<open>*\<close>, \<^verbatim>\<open>/\<close>, and so \<^verbatim>\<open>sum\<close> and \<^verbatim>\<open>+=\<close>)
    rounds its exact result to the 28 significant digits of the context, half
    even (\<open>round_prec\<close>); no module changes the precision or the context's
    rounding mode. \<^verbatim>\<open>quantize\<close> rounds to cents with its rounding mode and raises
    \<^verbatim>\<open>InvalidOperation\<close> when the result needs more than 28 digits. The special
    values (NaN, Infinity) and the exponent limits of the context (\<open>10\<close> to the
    \<open>\<plusminus>999999\<close>) are outside the model: amounts are finite numbers.
  \<^item> A \<^verbatim>\<open>datetime.date\<close> is the triple (year, month, day), ordered
    lexicographically as Python orders dates. A date object is always true in a
    boolean test, so \<^verbatim>\<open>when or date.today()\<close> tests for \<^verbatim>\<open>None\<close> only; the
    clock \<^verbatim>\<open>date.today()\<close> is the parameter \<open>today\<close>.
  \<^item> A Python dict is an association list in insertion order; lookup is
    \<open>map_of\<close>, item assignment is \<open>AList.update\<close> (replace in place, or append).
  \<^item> An exception is a value of type \<open>error\<close>. A function that mutates objects
    before raising returns the state it leaves behind together with the error.
  \<^item> In \<^verbatim>\<open>app.py\<close> and \<^verbatim>\<open>models.py\<close> the account type is one of the five keys of
    \<^verbatim>\<open>ACCOUNT_TYPES\<close>: the constructor rejects any other string. In
    \<^verbatim>\<open>double_entry.py\<close> the type is a string that nothing checks.
  Definitions of \<^verbatim>\<open>app.py\<close> keep their names; those of \<^verbatim>\<open>models.py\<close> and
  \<^verbatim>\<open>double_entry.py\<close> that clash with them carry the suffix \<open>_models\<close> or
  \<open>_console\<close>.
\<close>

subsection \<open>Money, dates, account types, errors\<close>

type_synonym decimal = rat

text \<open>
  The two rounding modes the code uses, to the nearest integer: ties to the even
  neighbour (\<^verbatim>\<open>ROUND_HALF_EVEN\<close>, the context's default) and ties away from zero
  (\<^verbatim>\<open>ROUND_HALF_UP\<close>).
\<close>

definition round_half_even :: "rat \<Rightarrow> int" where
  "round_half_even x =
     (let f = \<lfloor>x\<rfloor>; r = x - of_int f
      in if r < 1 / 2 then f
         else if 1 / 2 < r then f + 1
         else if even f then f else f + 1)"

definition round_half_up :: "rat \<Rightarrow> int" where
  "round_half_up x = (if 0 \<le> x then \<lfloor>x + 1 / 2\<rfloor> else - \<lfloor>- x + 1 / 2\<rfloor>)"

text \<open>
  The context precision. \<open>digits n\<close> is the number of decimal digits of \<open>n\<close>;
  \<open>adjusted x\<close> is the exponent of the leading digit of \<open>x \<noteq> 0\<close> (Python's
  \<^verbatim>\<open>Decimal.adjusted()\<close>), found from the digit counts of numerator and
  denominator; \<open>round_prec x\<close> keeps the 28 leading digits of \<open>x\<close>, rounding half
  even.
\<close>

fun digits :: "nat \<Rightarrow> nat" where
  "digits n = (if n < 10 then 1 else Suc (digits (n div 10)))"

definition adjusted :: "rat \<Rightarrow> int" where
  "adjusted x =
     (let (p, q) = quotient_of \<bar>x\<bar>;
          d = int (digits (nat p)) - int (digits (nat q))
      in if 10 powi d \<le> \<bar>x\<bar> then d else d - 1)"

definition round_prec :: "decimal \<Rightarrow> decimal" where
  "round_prec x =
     (if x = 0 then 0
      else let q = adjusted x - 27
           in of_int (round_half_even (x / 10 powi q)) * 10 powi q)"


text \<open>
  The operations of \<^verbatim>\<open>Decimal\<close>: the exact result, rounded by the context.
  \<^verbatim>\<open>sum(xs, start)\<close> adds from the left; without a start value it starts from the
  integer 0, and \<^verbatim>\<open>0 + x\<close> is again a \<^verbatim>\<open>Decimal\<close> addition.
\<close>

definition add_decimal :: "decimal \<Rightarrow> decimal \<Rightarrow> decimal" where
  "add_decimal x y = round_prec (x + y)"

definition sub_decimal :: "decimal \<Rightarrow> decimal \<Rightarrow> decimal" where
  "sub_decimal x y = round_prec (x - y)"

definition neg_decimal :: "decimal \<Rightarrow> decimal" where
  "neg_decimal x = round_prec (- x)"

definition mul_decimal :: "decimal \<Rightarrow> decimal \<Rightarrow> decimal" where
  "mul_decimal x y = round_prec (x * y)"

definition div_decimal :: "decimal \<Rightarrow> decimal \<Rightarrow> decimal" where
  "div_decimal x y = round_prec (x / y)"

definition sum_decimal :: "decimal \<Rightarrow> decimal list \<Rightarrow> decimal" where
  "sum_decimal start xs = foldl add_decimal start xs"

type_synonym date = "nat \<times> nat \<times> nat"

datatype account_type = Asset | Liability | Equity | Revenue | Expense

datatype polarity = debit_normal | credit_normal

text \<open>\<^verbatim>\<open>ACCOUNT_TYPES\<close> of \<^verbatim>\<open>app.py\<close> and \<^verbatim>\<open>models.py\<close>: the natural balance of each type.\<close>

fun ACCOUNT_TYPES :: "account_type \<Rightarrow> polarity" where
  "ACCOUNT_TYPES Asset = debit_normal"
| "ACCOUNT_TYPES Liability = credit_normal"
| "ACCOUNT_TYPES Equity = credit_normal"
| "ACCOUNT_TYPES Revenue = credit_normal"
| "ACCOUNT_TYPES Expense = debit_normal"

text \<open>The string of an account type, as the source stores it (used as a sort key).\<close>

fun type_str :: "account_type \<Rightarrow> string" where
  "type_str Asset = ''Asset''"
| "type_str Liability = ''Liability''"
| "type_str Equity = ''Equity''"
| "type_str Revenue = ''Revenue''"
| "type_str Expense = ''Expense''"

text \<open>
  The exceptions the ledger code raises. All but the last three are \<^verbatim>\<open>ValueError\<close>
  in the source, told apart by their message:
  \<^item> \<open>EmptyEntry\<close>: "Both debit and credit entries are required" (\<^verbatim>\<open>app.py\<close>);
  \<^item> \<open>Unbalanced d c\<close>: "Transaction not balanced" (\<^verbatim>\<open>app.py\<close>), "Journal entry
    unbalanced" (\<^verbatim>\<open>double_entry.py\<close>), with both totals;
  \<^item> \<open>InvalidAmount\<close>: "Amount must be positive" (\<^verbatim>\<open>models.py\<close>), "All line
    amounts must be positive" (\<^verbatim>\<open>double_entry.py\<close>);
  \<^item> \<open>AccountNotFound k\<close>: "Account not found" (\<^verbatim>\<open>app.py\<close>, from the caught
    \<^verbatim>\<open>KeyError\<close>);
  \<^item> \<open>AlreadyPosted\<close>: "Entry already posted"; \<open>InvalidLife\<close>: "life_years must
    be > 0" (\<^verbatim>\<open>double_entry.py\<close>);
  \<^item> \<open>KeyError k\<close>: a \<^verbatim>\<open>KeyError\<close> that reaches the caller (a missing dict key,
    \<^verbatim>\<open>get_account\<close>, "Journal entry not found");
  \<^item> \<open>InvalidOperation\<close>: \<^verbatim>\<open>decimal.InvalidOperation\<close>, from \<^verbatim>\<open>quantize\<close>.
\<close>

datatype error =
    EmptyEntry
  | Unbalanced decimal decimal
  | InvalidAmount
  | AccountNotFound string
  | AlreadyPosted
  | InvalidLife
  | KeyError string
  | InvalidOperation

text \<open>
  \<^verbatim>\<open>x.quantize(Decimal("0.01"), rounding)\<close>: \<open>x\<close> rounded to cents. It raises
  \<^verbatim>\<open>InvalidOperation\<close> when the coefficient of the result has more than 28
  digits, that is when the result is \<open>10\<^sup>2\<^sup>6\<close> or more in absolute value.
  Without a rounding argument \<^verbatim>\<open>quantize\<close> rounds half even (\<^verbatim>\<open>app.py\<close>);
  \<^verbatim>\<open>double_entry.py\<close> passes \<^verbatim>\<open>ROUND_HALF_UP\<close>, also in \<^verbatim>\<open>D(x)\<close>, which converts
  to \<^verbatim>\<open>Decimal\<close> and quantizes. \<^verbatim>\<open>D('0.00')\<close> is the constant zero and is written
  \<open>0\<close>.
\<close>

definition quantize_cent :: "(rat \<Rightarrow> int) \<Rightarrow> decimal \<Rightarrow> error + decimal" where
  "quantize_cent rounding x =
     (let r = of_int (rounding (x * 100)) / 100
      in if 10 ^ 26 \<le> \<bar>r\<bar> then Inl InvalidOperation else Inr r)"

definition quantize :: "decimal \<Rightarrow> error + decimal" where
  "quantize x = quantize_cent round_half_even x"

definition quantize_half_up :: "decimal \<Rightarrow> error + decimal" where
  "quantize_half_up x = quantize_cent round_half_up x"

definition D :: "decimal \<Rightarrow> error + decimal" where
  "D x = quantize_half_up x"

subsection \<open>\<^verbatim>\<open>app.py\<close>: Account\<close>

text \<open>An element of \<^verbatim>\<open>Account.debits\<close> or \<^verbatim>\<open>Account.credits\<close>.\<close>

record entry =
  e_amount :: decimal
  e_description :: string
  e_date :: date

record account =
  a_name :: string
  a_type :: account_type
  a_category :: string
  a_debits :: "entry list"
  a_credits :: "entry list"
  a_created_at :: date

text \<open>
  \<^verbatim>\<open>Account.__init__\<close>. The check of the type against \<^verbatim>\<open>ACCOUNT_TYPES\<close> is the
  type \<open>account_type\<close>.
\<close>

definition Account :: "date \<Rightarrow> string \<Rightarrow> account_type \<Rightarrow> string \<Rightarrow> account" where
  "Account today name account_type category =
     \<lparr>a_name = name, a_type = account_type, a_category = category,
      a_debits = [], a_credits = [], a_created_at = today\<rparr>"

text \<open>\<^verbatim>\<open>Account.debit\<close> and \<^verbatim>\<open>Account.credit\<close>: append, with no check of the amount.\<close>

definition debit :: "date \<Rightarrow> account \<Rightarrow> decimal \<Rightarrow> string \<Rightarrow> date option \<Rightarrow> account" where
  "debit today a amount description when =
     a\<lparr>a_debits := a_debits a @
        [\<lparr>e_amount = amount, e_description = description,
          e_date = (case when of Some d \<Rightarrow> d | None \<Rightarrow> today)\<rparr>]\<rparr>"

definition credit :: "date \<Rightarrow> account \<Rightarrow> decimal \<Rightarrow> string \<Rightarrow> date option \<Rightarrow> account" where
  "credit today a amount description when =
     a\<lparr>a_credits := a_credits a @
        [\<lparr>e_amount = amount, e_description = description,
          e_date = (case when of Some d \<Rightarrow> d | None \<Rightarrow> today)\<rparr>]\<rparr>"

definition total_debit :: "account \<Rightarrow> decimal" where
  "total_debit a = sum_decimal 0 (map e_amount (a_debits a))"

definition total_credit :: "account \<Rightarrow> decimal" where
  "total_credit a = sum_decimal 0 (map e_amount (a_credits a))"

definition balance :: "account \<Rightarrow> decimal" where
  "balance a =
     (let raw_balance = sub_decimal (total_debit a) (total_credit a)
      in if ACCOUNT_TYPES (a_type a) = credit_normal then neg_decimal raw_balance
         else raw_balance)"

subsection \<open>\<^verbatim>\<open>app.py\<close>: account statement\<close>

datatype side = debit_side | credit_side

text \<open>An element of \<^verbatim>\<open>Account.entries\<close>.\<close>

record entry_row =
  r_date :: date
  r_description :: string
  r_debit :: decimal
  r_credit :: decimal
  r_type :: side

text \<open>An element of a statement: the entry and the running balance after it.\<close>

record statement_row = entry_row +
  s_balance :: decimal

definition debit_row :: "entry \<Rightarrow> entry_row" where
  "debit_row e =
     \<lparr>r_date = e_date e, r_description = e_description e,
      r_debit = e_amount e, r_credit = 0, r_type = debit_side\<rparr>"

definition credit_row :: "entry \<Rightarrow> entry_row" where
  "credit_row e =
     \<lparr>r_date = e_date e, r_description = e_description e,
      r_debit = 0, r_credit = e_amount e, r_type = credit_side\<rparr>"

text \<open>
  \<^verbatim>\<open>Account.entries\<close>: the debit entries, then the credit entries, sorted by date
  with Python's stable \<^verbatim>\<open>sorted\<close>; \<open>sort_key\<close> is the stable insertion sort.
\<close>

definition all_entries :: "account \<Rightarrow> entry_row list" where
  "all_entries a = map debit_row (a_debits a) @ map credit_row (a_credits a)"

definition entries :: "account \<Rightarrow> entry_row list" where
  "entries a = sort_key r_date (all_entries a)"

text \<open>The loop of \<^verbatim>\<open>Account.statement\<close> that accumulates the running balance.\<close>

fun running_balance :: "polarity \<Rightarrow> decimal \<Rightarrow> entry_row list \<Rightarrow> statement_row list" where
  "running_balance p bal [] = []"
| "running_balance p bal (entry # rest) =
     (let bal' =
        (if p = credit_normal
         then add_decimal bal (sub_decimal (r_credit entry) (r_debit entry))
         else add_decimal bal (sub_decimal (r_debit entry) (r_credit entry)))
      in \<lparr>r_date = r_date entry, r_description = r_description entry,
          r_debit = r_debit entry, r_credit = r_credit entry, r_type = r_type entry,
          s_balance = bal'\<rparr> # running_balance p bal' rest)"

definition statement :: "account \<Rightarrow> date option \<Rightarrow> date option \<Rightarrow> statement_row list" where
  "statement a start_date end_date =
     (let entries0 = entries a;
          entries1 = (case start_date of
                        Some s \<Rightarrow> filter (\<lambda>e. s \<le> r_date e) entries0
                      | None \<Rightarrow> entries0);
          entries2 = (case end_date of
                        Some t \<Rightarrow> filter (\<lambda>e. r_date e \<le> t) entries1
                      | None \<Rightarrow> entries1)
      in running_balance (ACCOUNT_TYPES (a_type a)) 0 entries2)"

subsection \<open>\<^verbatim>\<open>app.py\<close>: chart of accounts, posting\<close>

text \<open>
  The module's state: the dict \<^verbatim>\<open>accounts\<close> (name to account) and the list
  \<^verbatim>\<open>transactions\<close>, newest first. Every \<^verbatim>\<open>Account\<close> object is referenced from
  the dict only, so a method call on \<^verbatim>\<open>accounts[k]\<close> is an update of the dict
  entry. The file that \<^verbatim>\<open>storage.save_data\<close> writes is modelled with
  \<^verbatim>\<open>storage.py\<close> below; no function of this section reads it back.
\<close>

record tx =
  t_id :: nat
  t_date :: date
  t_description :: string
  t_amount :: decimal
  t_debit_entries :: "(string \<times> decimal) list"
  t_credit_entries :: "(string \<times> decimal) list"

record state =
  accounts :: "(string \<times> account) list"
  transactions :: "tx list"

definition INITIAL_ACCOUNTS :: "(string \<times> account_type \<times> string) list" where
  "INITIAL_ACCOUNTS =
    [(''Cash'', Asset, ''Current Assets''),
     (''Accounts Receivable'', Asset, ''Current Assets''),
     (''Inventory'', Asset, ''Current Assets''),
     (''Equipment'', Asset, ''Fixed Assets''),
     (''Accumulated Depreciation'', Asset, ''Fixed Assets''),
     (''Accounts Payable'', Liability, ''Current Liabilities''),
     (''Wages Payable'', Liability, ''Current Liabilities''),
     (''Bank Loan'', Liability, ''Long Term Liabilities''),
     (''Owner's Equity'', Equity, ''Owner's Equity''),
     (''Retained Earnings'', Equity, ''Retained Earnings''),
     (''Sales Revenue'', Revenue, ''Operating Revenue''),
     (''Service Revenue'', Revenue, ''Operating Revenue''),
     (''Interest Income'', Revenue, ''Other Revenue''),
     (''Cost of Goods Sold'', Expense, ''Operating Expenses''),
     (''Salary Expense'', Expense, ''Operating Expenses''),
     (''Rent Expense'', Expense, ''Operating Expenses''),
     (''Utilities Expense'', Expense, ''Operating Expenses''),
     (''Depreciation Expense'', Expense, ''Operating Expenses''),
     (''Interest Expense'', Expense, ''Other Expenses'')]"

text \<open>The state of a first run: the default chart, no transactions.\<close>

definition initial_state :: "date \<Rightarrow> state" where
  "initial_state today =
     \<lparr>accounts = map (\<lambda>(name, typ, category). (name, Account today name typ category))
                    INITIAL_ACCOUNTS,
      transactions = []\<rparr>"

text \<open>
  \<^verbatim>\<open>validate_transaction\<close>: both dicts non-empty, totals equal. The amounts
  themselves are not inspected.
\<close>

definition validate_transaction ::
  "(string \<times> decimal) list \<Rightarrow> (string \<times> decimal) list \<Rightarrow> error + unit" where
  "validate_transaction debits credits =
     (if debits = [] \<or> credits = [] then Inl EmptyEntry
      else
        let total_debit = sum_decimal 0 (map snd debits);
            total_credit = sum_decimal 0 (map snd credits)
        in if total_debit \<noteq> total_credit then Inl (Unbalanced total_debit total_credit)
           else Inr ())"

text \<open>
  The two loops of \<^verbatim>\<open>post_transaction\<close>. Each returns the accounts as the loop
  leaves them and, when \<^verbatim>\<open>accounts[acct]\<close> raised \<^verbatim>\<open>KeyError\<close>, the missing key:
  the entries applied before the missing key stay applied.
\<close>

fun apply_debits ::
  "date \<Rightarrow> (string \<times> account) list \<Rightarrow> (string \<times> decimal) list \<Rightarrow> string \<Rightarrow> date
   \<Rightarrow> string option \<times> (string \<times> account) list" where
  "apply_debits today accts [] description tx_date = (None, accts)"
| "apply_debits today accts ((acct, amt) # rest) description tx_date =
     (case map_of accts acct of
        None \<Rightarrow> (Some acct, accts)
      | Some a \<Rightarrow>
          apply_debits today
            (AList.update acct (debit today a amt description (Some tx_date)) accts)
            rest description tx_date)"

fun apply_credits ::
  "date \<Rightarrow> (string \<times> account) list \<Rightarrow> (string \<times> decimal) list \<Rightarrow> string \<Rightarrow> date
   \<Rightarrow> string option \<times> (string \<times> account) list" where
  "apply_credits today accts [] description tx_date = (None, accts)"
| "apply_credits today accts ((acct, amt) # rest) description tx_date =
     (case map_of accts acct of
        None \<Rightarrow> (Some acct, accts)
      | Some a \<Rightarrow>
          apply_credits today
            (AList.update acct (credit today a amt description (Some tx_date)) accts)
            rest description tx_date)"

text \<open>
  \<^verbatim>\<open>post_transaction\<close>. The result is the returned transaction or the error
  raised, and the state after the call. \<^verbatim>\<open>debits\<close> and \<^verbatim>\<open>credits\<close> are dicts
  from account name to amount, in insertion order.
\<close>

definition post_transaction ::
  "date \<Rightarrow> state \<Rightarrow> (string \<times> decimal) list \<Rightarrow> (string \<times> decimal) list \<Rightarrow> string
   \<Rightarrow> date option \<Rightarrow> (error + tx) \<times> state" where
  "post_transaction today s debits credits description transaction_date =
     (case validate_transaction debits credits of
        Inl e \<Rightarrow> (Inl e, s)
      | Inr _ \<Rightarrow>
          (let tx_date = (case transaction_date of Some d \<Rightarrow> d | None \<Rightarrow> today)
           in (case apply_debits today (accounts s) debits description tx_date of
                 (Some k, accts1) \<Rightarrow> (Inl (AccountNotFound k), s\<lparr>accounts := accts1\<rparr>)
               | (None, accts1) \<Rightarrow>
                   (case apply_credits today accts1 credits description tx_date of
                      (Some k, accts2) \<Rightarrow> (Inl (AccountNotFound k), s\<lparr>accounts := accts2\<rparr>)
                    | (None, accts2) \<Rightarrow>
                        (let t = \<lparr>t_id = length (transactions s) + 1,
                                  t_date = tx_date,
                                  t_description = description,
                                  t_amount = sum_decimal 0 (map snd debits),
                                  t_debit_entries = debits,
                                  t_credit_entries = credits\<rparr>
                         in (Inr t, \<lparr>accounts = accts2, transactions = t # transactions s\<rparr>))))))"

text \<open>A sequence of postings, each of which must succeed.\<close>

record posting =
  p_debits :: "(string \<times> decimal) list"
  p_credits :: "(string \<times> decimal) list"
  p_description :: string
  p_date :: "date option"

fun post_all :: "date \<Rightarrow> state \<Rightarrow> posting list \<Rightarrow> state option" where
  "post_all today s [] = Some s"
| "post_all today s (p # ps) =
     (case post_transaction today s (p_debits p) (p_credits p) (p_description p) (p_date p) of
        (Inl e, s') \<Rightarrow> None
      | (Inr t, s') \<Rightarrow> post_all today s' ps)"

subsection \<open>\<^verbatim>\<open>app.py\<close>: depreciation, trial balance\<close>

text \<open>
  \<^verbatim>\<open>calculate_depreciation\<close>. It appends to the two accounts directly: it neither
  validates nor records a transaction. \<open>strftime\<close> stands for
  \<^verbatim>\<open>entry_date.strftime('%B %Y')\<close>. A missing account raises \<^verbatim>\<open>KeyError\<close> where
  the source indexes the dict, and an \<^verbatim>\<open>InvalidOperation\<close> of \<^verbatim>\<open>quantize\<close> leaves
  the function before anything is appended.
\<close>

definition calculate_depreciation ::
  "(date \<Rightarrow> string) \<Rightarrow> date \<Rightarrow> state \<Rightarrow> date option \<Rightarrow> error option \<times> state" where
  "calculate_depreciation strftime today s as_of_date =
     (let entry_date = (case as_of_date of Some d \<Rightarrow> d | None \<Rightarrow> today)
      in (case map_of (accounts s) ''Equipment'' of
            None \<Rightarrow> (Some (KeyError ''Equipment''), s)
          | Some equipment \<Rightarrow>
              (let equipment_cost = balance equipment
               in (case quantize (div_decimal equipment_cost 5) of
                     Inl e \<Rightarrow> (Some e, s)
                   | Inr annual_depreciation \<Rightarrow>
                       (case quantize (div_decimal annual_depreciation 12) of
                          Inl e \<Rightarrow> (Some e, s)
                        | Inr monthly_depreciation \<Rightarrow>
                            (let description =
                                   ''Monthly depreciation for '' @ strftime entry_date
                             in (case map_of (accounts s) ''Depreciation Expense'' of
                                   None \<Rightarrow> (Some (KeyError ''Depreciation Expense''), s)
                                 | Some expense \<Rightarrow>
                                     (let accts1 = AList.update ''Depreciation Expense''
                                            (debit today expense monthly_depreciation
                                               description (Some entry_date))
                                            (accounts s)
                                      in (case map_of accts1 ''Accumulated Depreciation'' of
                                            None \<Rightarrow>
                                              (Some (KeyError ''Accumulated Depreciation''),
                                               s\<lparr>accounts := accts1\<rparr>)
                                          | Some accumulated \<Rightarrow>
                                              (None,
                                               s\<lparr>accounts :=
                                                    AList.update ''Accumulated Depreciation''
                                                      (credit today accumulated
                                                         monthly_depreciation description
                                                         (Some entry_date))
                                                      accts1\<rparr>))))))))))"

record tb_row =
  tb_name :: string
  tb_type :: account_type
  tb_category :: string
  tb_debit :: decimal
  tb_credit :: decimal

record tb_totals =
  total_debits :: decimal
  total_credits :: decimal
  is_balanced :: bool

text \<open>The body of the loop of \<^verbatim>\<open>trial_balance\<close>, for one account.\<close>

definition trial_balance_row :: "date option \<Rightarrow> account \<Rightarrow> tb_row" where
  "trial_balance_row as_of_date account =
     (let bal =
            (case as_of_date of
               Some d \<Rightarrow>
                 (let stmt = statement account None (Some d)
                  in if stmt \<noteq> [] then s_balance (last stmt) else 0)
             | None \<Rightarrow> balance account);
          debit_amt = (if 0 < bal then bal else 0);
          credit_amt = (if bal < 0 then neg_decimal bal else 0);
          (debit_amt, credit_amt) =
            (if ACCOUNT_TYPES (a_type account) = credit_normal
             then (credit_amt, debit_amt) else (debit_amt, credit_amt))
      in \<lparr>tb_name = a_name account, tb_type = a_type account,
          tb_category = a_category account, tb_debit = debit_amt, tb_credit = credit_amt\<rparr>)"

definition trial_balance :: "state \<Rightarrow> date option \<Rightarrow> tb_row list \<times> tb_totals" where
  "trial_balance s as_of_date =
     (let rows = map (trial_balance_row as_of_date)
                   (sort_key (\<lambda>x. (type_str (a_type x), a_name x)) (map snd (accounts s)));
          total_debits = sum_decimal 0 (map tb_debit rows);
          total_credits = sum_decimal 0 (map tb_credit rows)
      in (rows,
          \<lparr>total_debits = total_debits, total_credits = total_credits,
           is_balanced = (total_debits = total_credits)\<rparr>))"

subsection \<open>\<^verbatim>\<open>models.py\<close>: Account\<close>

record account_models =
  m_name :: string
  m_type :: account_type
  m_debits :: "decimal list"
  m_credits :: "decimal list"

definition Account_models :: "string \<Rightarrow> account_type \<Rightarrow> account_models" where
  "Account_models name account_type =
     \<lparr>m_name = name, m_type = account_type, m_debits = [], m_credits = []\<rparr>"

definition debit_models :: "account_models \<Rightarrow> decimal \<Rightarrow> string \<Rightarrow> account_models" where
  "debit_models a amount description = a\<lparr>m_debits := m_debits a @ [amount]\<rparr>"

definition credit_models :: "account_models \<Rightarrow> decimal \<Rightarrow> string \<Rightarrow> account_models" where
  "credit_models a amount description = a\<lparr>m_credits := m_credits a @ [amount]\<rparr>"

definition total_debit_models :: "account_models \<Rightarrow> decimal" where
  "total_debit_models a = sum_decimal 0 (m_debits a)"

definition total_credit_models :: "account_models \<Rightarrow> decimal" where
  "total_credit_models a = sum_decimal 0 (m_credits a)"

definition raw_balance_models :: "account_models \<Rightarrow> decimal" where
  "raw_balance_models a = sub_decimal (total_debit_models a) (total_credit_models a)"

definition balance_models :: "account_models \<Rightarrow> decimal" where
  "balance_models a =
     (let raw = raw_balance_models a
      in if ACCOUNT_TYPES (m_type a) = credit_normal then neg_decimal raw else raw)"

text \<open>
  \<^verbatim>\<open>Account.validate_transaction\<close> of \<^verbatim>\<open>models.py\<close>: it reads nothing of the
  account and changes nothing; \<^verbatim>\<open>debit\<close> and \<^verbatim>\<open>credit\<close> do not call it.
\<close>

definition validate_transaction_models ::
  "account_models \<Rightarrow> bool \<Rightarrow> decimal \<Rightarrow> error + unit" where
  "validate_transaction_models a is_debit amount =
     (if amount \<le> 0 then Inl InvalidAmount else Inr ())"

subsection \<open>\<^verbatim>\<open>double_entry.py\<close>: Account\<close>

text \<open>An element of \<^verbatim>\<open>debits\<close> or \<^verbatim>\<open>credits\<close> is the pair (journal entry id, amount).\<close>

record account_console =
  c_code :: string
  c_name :: string
  c_type :: string
  c_debits :: "(string \<times> decimal) list"
  c_credits :: "(string \<times> decimal) list"

definition balance_console :: "account_console \<Rightarrow> decimal" where
  "balance_console a =
     (let total_debits = sum_decimal 0 (map snd (c_debits a));
          total_credits = sum_decimal 0 (map snd (c_credits a))
      in if c_type a = ''Asset'' \<or> c_type a = ''Expense''
         then sub_decimal total_debits total_credits
         else sub_decimal total_credits total_debits)"

subsection \<open>\<^verbatim>\<open>double_entry.py\<close>: Ledger\<close>

record entry_line =
  line_account :: string
  line_amount :: decimal
  line_is_debit :: bool

definition EntryLine :: "string \<Rightarrow> decimal \<Rightarrow> bool \<Rightarrow> entry_line" where
  "EntryLine account amount is_debit =
     \<lparr>line_account = account, line_amount = amount, line_is_debit = is_debit\<rparr>"

record journal_entry =
  je_id :: string
  je_date :: date
  je_description :: string
  je_lines :: "entry_line list"
  je_posted :: bool

text \<open>
  The ledger: the dicts \<^verbatim>\<open>accounts\<close> (code to account) and \<^verbatim>\<open>journal\<close> (id to
  entry). The ids come from \<^verbatim>\<open>uuid.uuid4()\<close>: the random source is the sequence
  \<open>uuid4 :: nat \<Rightarrow> string\<close> of the strings it will return, and \<open>l_drawn\<close> counts
  the calls made so far.
\<close>

record ledger =
  l_accounts :: "(string \<times> account_console) list"
  l_journal :: "(string \<times> journal_entry) list"
  l_drawn :: nat

definition create_account :: "ledger \<Rightarrow> string \<Rightarrow> string \<Rightarrow> string \<Rightarrow> ledger" where
  "create_account L code name typ =
     (if code \<in> fst ` set (l_accounts L) then L
      else L\<lparr>l_accounts := AList.update code
               \<lparr>c_code = code, c_name = name, c_type = typ, c_debits = [], c_credits = []\<rparr>
               (l_accounts L)\<rparr>)"

definition seed_list :: "(string \<times> string \<times> string) list" where
  "seed_list =
    [(''1000'', ''Cash'', ''Asset''),
     (''1010'', ''Bank'', ''Asset''),
     (''1020'', ''Accounts Receivable'', ''Asset''),
     (''1030'', ''Inventory'', ''Asset''),
     (''1040'', ''Equipment'', ''Asset''),
     (''1045'', ''Accumulated Depreciation'', ''Asset''),
     (''2000'', ''Accounts Payable'', ''Liability''),
     (''2100'', ''Wages Payable'', ''Liability''),
     (''2200'', ''Bank Loan'', ''Liability''),
     (''3000'', ''Equity'', ''Equity''),
     (''4000'', ''Revenue'', ''Revenue''),
     (''4100'', ''Sales Returns'', ''Revenue''),
     (''5000'', ''COGS'', ''Expense''),
     (''5100'', ''Wages Expense'', ''Expense''),
     (''5200'', ''Rent & SG&A'', ''Expense''),
     (''5300'', ''Depreciation Expense'', ''Expense''),
     (''5400'', ''Interest Expense'', ''Expense''),
     (''6000'', ''Tax Expense'', ''Expense'')]"

definition seed_accounts :: "ledger \<Rightarrow> ledger" where
  "seed_accounts L = foldl (\<lambda>L (code, name, typ). create_account L code name typ) L seed_list"

text \<open>\<^verbatim>\<open>Ledger.__init__\<close>.\<close>

definition Ledger :: ledger where
  "Ledger = seed_accounts \<lparr>l_accounts = [], l_journal = [], l_drawn = 0\<rparr>"

definition get_account :: "ledger \<Rightarrow> string \<Rightarrow> error + account_console" where
  "get_account L code =
     (case map_of (l_accounts L) code of
        None \<Rightarrow> Inl (KeyError code)
      | Some a \<Rightarrow> Inr a)"

text \<open>
  \<^verbatim>\<open>new_journal_entry\<close>: every amount positive, totals equal; then the entry is
  stored in the journal, unposted. An empty list of lines passes both checks.
\<close>

definition new_journal_entry ::
  "(nat \<Rightarrow> string) \<Rightarrow> date \<Rightarrow> ledger \<Rightarrow> string \<Rightarrow> entry_line list
   \<Rightarrow> (error + journal_entry) \<times> ledger" where
  "new_journal_entry uuid4 today L description lines =
     (if \<exists>l \<in> set lines. line_amount l \<le> 0 then (Inl InvalidAmount, L)
      else
        let deb = sum_decimal 0 (map line_amount (filter line_is_debit lines));
            cre = sum_decimal 0 (map line_amount (filter (\<lambda>l. \<not> line_is_debit l) lines))
        in if deb \<noteq> cre then (Inl (Unbalanced deb cre), L)
           else
             let je = \<lparr>je_id = take 8 (uuid4 (l_drawn L)), je_date = today,
                       je_description = description, je_lines = lines, je_posted = False\<rparr>
             in (Inr je,
                 L\<lparr>l_journal := AList.update (je_id je) je (l_journal L),
                   l_drawn := l_drawn L + 1\<rparr>))"

text \<open>
  The loop of \<^verbatim>\<open>post_entry\<close>. \<^verbatim>\<open>get_account\<close> raises \<^verbatim>\<open>KeyError\<close> from inside
  the loop: the lines before the unknown account stay applied.
\<close>

fun apply_lines :: "ledger \<Rightarrow> string \<Rightarrow> entry_line list \<Rightarrow> error option \<times> ledger" where
  "apply_lines L jid [] = (None, L)"
| "apply_lines L jid (l # ls) =
     (case get_account L (line_account l) of
        Inl e \<Rightarrow> (Some e, L)
      | Inr acct \<Rightarrow>
          apply_lines
            (L\<lparr>l_accounts := AList.update (line_account l)
                 (if line_is_debit l
                  then acct\<lparr>c_debits := c_debits acct @ [(jid, line_amount l)]\<rparr>
                  else acct\<lparr>c_credits := c_credits acct @ [(jid, line_amount l)]\<rparr>)
                 (l_accounts L)\<rparr>)
            jid ls)"

definition post_entry :: "ledger \<Rightarrow> string \<Rightarrow> (error + journal_entry) \<times> ledger" where
  "post_entry L jid =
     (case map_of (l_journal L) jid of
        None \<Rightarrow> (Inl (KeyError ''Journal entry not found''), L)
      | Some je \<Rightarrow>
          if je_posted je then (Inl AlreadyPosted, L)
          else
            (case apply_lines L (je_id je) (je_lines je) of
               (Some e, L') \<Rightarrow> (Inl e, L')
             | (None, L') \<Rightarrow>
                 let je' = je\<lparr>je_posted := True\<rparr>
                 in (Inr je', L'\<lparr>l_journal := AList.update jid je' (l_journal L')\<rparr>)))"

text \<open>\<^verbatim>\<open>Ledger.post_transaction\<close>: create, then post.\<close>

definition post_transaction_console ::
  "(nat \<Rightarrow> string) \<Rightarrow> date \<Rightarrow> ledger \<Rightarrow> string \<Rightarrow> entry_line list
   \<Rightarrow> (error + journal_entry) \<times> ledger" where
  "post_transaction_console uuid4 today L description lines =
     (case new_journal_entry uuid4 today L description lines of
        (Inl e, L1) \<Rightarrow> (Inl e, L1)
      | (Inr je, L1) \<Rightarrow> post_entry L1 (je_id je))"

text \<open>A sequence of postings, each of which must succeed.\<close>

fun post_all_console ::
  "(nat \<Rightarrow> string) \<Rightarrow> date \<Rightarrow> ledger \<Rightarrow> (string \<times> entry_line list) list \<Rightarrow> ledger option" where
  "post_all_console uuid4 today L [] = Some L"
| "post_all_console uuid4 today L ((description, lines) # ps) =
     (case post_transaction_console uuid4 today L description lines of
        (Inl e, L') \<Rightarrow> None
      | (Inr je, L') \<Rightarrow> post_all_console uuid4 today L' ps)"

record tb_row_console =
  tbc_code :: string
  tbc_name :: string
  tbc_type :: string
  tbc_debit :: decimal
  tbc_credit :: decimal

text \<open>
  \<^verbatim>\<open>Ledger.trial_balance\<close>. The loop runs over the sorted keys and reads
  \<^verbatim>\<open>self.accounts[code]\<close>: over the items sorted by key. \<^verbatim>\<open>D(debit)\<close> and
  \<^verbatim>\<open>D(credit)\<close> can raise; the first row that raises ends the report.
\<close>

definition trial_balance_row_console ::
  "string \<times> account_console \<Rightarrow> error + tb_row_console" where
  "trial_balance_row_console item =
     (let code = fst item; acct = snd item; bal = balance_console acct;
          (debit_col, credit_col) =
            (if c_type acct = ''Asset'' \<or> c_type acct = ''Expense''
             then (if 0 \<le> bal then (bal, 0) else (0, neg_decimal bal))
             else (if 0 \<le> bal then (0, bal) else (neg_decimal bal, 0)))
      in (case D debit_col of
            Inl e \<Rightarrow> Inl e
          | Inr debit_cents \<Rightarrow>
              (case D credit_col of
                 Inl e \<Rightarrow> Inl e
               | Inr credit_cents \<Rightarrow>
                   Inr \<lparr>tbc_code = code, tbc_name = c_name acct, tbc_type = c_type acct,
                        tbc_debit = debit_cents, tbc_credit = credit_cents\<rparr>)))"

fun trial_balance_rows ::
  "(string \<times> account_console) list \<Rightarrow> error + tb_row_console list" where
  "trial_balance_rows [] = Inr []"
| "trial_balance_rows (item # items) =
     (case trial_balance_row_console item of
        Inl e \<Rightarrow> Inl e
      | Inr row \<Rightarrow>
          (case trial_balance_rows items of
             Inl e \<Rightarrow> Inl e
           | Inr rows \<Rightarrow> Inr (row # rows)))"

definition trial_balance_console ::
  "ledger \<Rightarrow> error + tb_row_console list \<times> decimal \<times> decimal" where
  "trial_balance_console L =
     (case trial_balance_rows (sort_key fst (l_accounts L)) of
        Inl e \<Rightarrow> Inl e
      | Inr rows \<Rightarrow>
          (let total_debit = sum_decimal 0 (map tbc_debit rows);
               total_credit = sum_decimal 0 (map tbc_credit rows)
           in (case D total_debit of
                 Inl e \<Rightarrow> Inl e
               | Inr total_debit_cents \<Rightarrow>
                   (case D total_credit of
                      Inl e \<Rightarrow> Inl e
                    | Inr total_credit_cents \<Rightarrow>
                        Inr (rows, total_debit_cents, total_credit_cents)))))"

text \<open>Python's \<^verbatim>\<open>str\<close> of an integer, for the description of the depreciation entry.\<close>

fun str_nat :: "nat \<Rightarrow> string" where
  "str_nat n =
     (if n < 10 then [char_of (48 + n)]
      else str_nat (n div 10) @ [char_of (48 + n mod 10)])"

definition str_int :: "int \<Rightarrow> string" where
  "str_int i = (if i < 0 then CHR ''-'' # str_nat (nat (- i)) else str_nat (nat i))"

text \<open>
  \<^verbatim>\<open>Ledger.calculate_depreciation\<close>: one division by the number of months of the
  useful life, rounded half up, times \<^verbatim>\<open>months\<close>; posted through
  \<^verbatim>\<open>post_transaction\<close>, and only when the amount is positive. The defaults of the
  source are codes 1040, 1045 and 5300, \<^verbatim>\<open>months=1\<close>, \<^verbatim>\<open>life_years=5\<close>,
  \<^verbatim>\<open>salvage=0\<close>. \<^verbatim>\<open>D(amt)\<close> is evaluated for the first line, before anything is
  posted, and gives the same value each time.
\<close>

definition calculate_depreciation_console ::
  "(nat \<Rightarrow> string) \<Rightarrow> date \<Rightarrow> ledger \<Rightarrow> string \<Rightarrow> string \<Rightarrow> string \<Rightarrow> int \<Rightarrow> int \<Rightarrow> decimal
   \<Rightarrow> (error + decimal) \<times> ledger" where
  "calculate_depreciation_console uuid4 today L equipment_account_code accum_depr_code
       depr_expense_code months life_years salvage =
     (case get_account L equipment_account_code of
        Inl e \<Rightarrow> (Inl e, L)
      | Inr equip \<Rightarrow>
          (case get_account L accum_depr_code of
             Inl e \<Rightarrow> (Inl e, L)
           | Inr accum \<Rightarrow>
               let cost = (if c_type equip = ''Asset'' then balance_console equip else 0);
                   total_cost = cost;
                   total_months = life_years * 12
               in if total_months \<le> 0 then (Inl InvalidLife, L)
                  else
                    (case D salvage of
                       Inl e \<Rightarrow> (Inl e, L)
                     | Inr salvage_cents \<Rightarrow>
                         let depreciable = sub_decimal total_cost salvage_cents
                         in if depreciable \<le> 0 then (Inr 0, L)
                            else
                              (case quantize_half_up
                                      (div_decimal depreciable (of_int total_months)) of
                                 Inl e \<Rightarrow> (Inl e, L)
                               | Inr monthly \<Rightarrow>
                                   let amt = mul_decimal monthly (of_int months)
                                   in if 0 < amt then
                                        (case D amt of
                                           Inl e \<Rightarrow> (Inl e, L)
                                         | Inr amt_cents \<Rightarrow>
                                             (case post_transaction_console uuid4 today L
                                                     (''Depreciation for '' @ str_int months
                                                        @ '' month(s)'')
                                                     [EntryLine depr_expense_code amt_cents True,
                                                      EntryLine accum_depr_code amt_cents False] of
                                                (Inl e, L') \<Rightarrow> (Inl e, L')
                                              | (Inr je, L') \<Rightarrow> (Inr amt_cents, L')))
                                      else
                                        (case D amt of
                                           Inl e \<Rightarrow> (Inl e, L)
                                         | Inr amt_cents \<Rightarrow> (Inr amt_cents, L))))))"

subsection \<open>Notions used to state the properties\<close>

text \<open>A call of \<^verbatim>\<open>Account.debit\<close> or \<^verbatim>\<open>Account.credit\<close> of \<^verbatim>\<open>app.py\<close>, and a sequence of them.\<close>

datatype account_call =
    Debit decimal string "date option"
  | Credit decimal string "date option"

fun run_calls :: "date \<Rightarrow> account \<Rightarrow> account_call list \<Rightarrow> account" where
  "run_calls today a [] = a"
| "run_calls today a (Debit amount description when # cs) =
     run_calls today (debit today a amount description when) cs"
| "run_calls today a (Credit amount description when # cs) =
     run_calls today (credit today a amount description when) cs"

text \<open>The amounts a sequence of calls debits, and those it credits, in order.\<close>

fun debited :: "account_call list \<Rightarrow> decimal list" where
  "debited [] = []"
| "debited (Debit amount description when # cs) = amount # debited cs"
| "debited (Credit amount description when # cs) = debited cs"

fun credited :: "account_call list \<Rightarrow> decimal list" where
  "credited [] = []"
| "credited (Debit amount description when # cs) = credited cs"
| "credited (Credit amount description when # cs) = amount # credited cs"

text \<open>The same for \<^verbatim>\<open>models.py\<close>: \<open>(True, amount)\<close> is a debit, \<open>(False, amount)\<close> a credit.\<close>

fun run_calls_models :: "account_models \<Rightarrow> (bool \<times> decimal) list \<Rightarrow> account_models" where
  "run_calls_models a [] = a"
| "run_calls_models a ((is_debit, amount) # cs) =
     run_calls_models
       (if is_debit then debit_models a amount [] else credit_models a amount []) cs"

text \<open>The sign of a balance: negated for the three credit-normal types.\<close>

definition flip :: "account_type \<Rightarrow> decimal \<Rightarrow> decimal" where
  "flip t x = (if t = Liability \<or> t = Equity \<or> t = Revenue then - x else x)"

text \<open>
  For the statement of an account: the date bounds as a predicate, the entry of a
  statement row, the contribution of an entry to the running balance, and the
  account restricted to the entries whose date satisfies a predicate.
\<close>

definition in_bounds :: "date option \<Rightarrow> date option \<Rightarrow> date \<Rightarrow> bool" where
  "in_bounds start_date end_date d =
     ((case start_date of Some s \<Rightarrow> s \<le> d | None \<Rightarrow> True)
      \<and> (case end_date of Some t \<Rightarrow> d \<le> t | None \<Rightarrow> True))"

definition row_of :: "statement_row \<Rightarrow> entry_row" where
  "row_of s =
     \<lparr>r_date = r_date s, r_description = r_description s, r_debit = r_debit s,
      r_credit = r_credit s, r_type = r_type s\<rparr>"

definition signed :: "polarity \<Rightarrow> entry_row \<Rightarrow> decimal" where
  "signed p e =
     (if p = credit_normal then r_credit e - r_debit e else r_debit e - r_credit e)"

definition restrict_account :: "(date \<Rightarrow> bool) \<Rightarrow> account \<Rightarrow> account" where
  "restrict_account P a =
     a\<lparr>a_debits := filter (\<lambda>e. P (e_date e)) (a_debits a),
       a_credits := filter (\<lambda>e. P (e_date e)) (a_credits a)\<rparr>"

text \<open>
  For the trial balance: total debits minus total credits of an account, over the
  entries whose date satisfies a predicate, and the sum of that over a chart.
\<close>

definition raw_upto :: "(date \<Rightarrow> bool) \<Rightarrow> account \<Rightarrow> decimal" where
  "raw_upto P a =
     sum_list (map e_amount (filter (\<lambda>e. P (e_date e)) (a_debits a)))
     - sum_list (map e_amount (filter (\<lambda>e. P (e_date e)) (a_credits a)))"

definition chart_raw :: "(date \<Rightarrow> bool) \<Rightarrow> (string \<times> account) list \<Rightarrow> decimal" where
  "chart_raw P accts = sum_list (map (\<lambda>item. raw_upto P (snd item)) accts)"

text \<open>The same for the console ledger.\<close>

definition raw_console :: "account_console \<Rightarrow> decimal" where
  "raw_console a = sum_list (map snd (c_debits a)) - sum_list (map snd (c_credits a))"

definition chart_raw_console :: "(string \<times> account_console) list \<Rightarrow> decimal" where
  "chart_raw_console accts = sum_list (map (\<lambda>item. raw_console (snd item)) accts)"

text \<open>
  The sign of a balance of \<^verbatim>\<open>double_entry.py\<close>: kept for the type strings
  \<^verbatim>\<open>'Asset'\<close> and \<^verbatim>\<open>'Expense'\<close>, negated for every other string.
\<close>

definition flip_console :: "string \<Rightarrow> decimal \<Rightarrow> decimal" where
  "flip_console t x = (if t = ''Asset'' \<or> t = ''Expense'' then x else - x)"

text \<open>
  The columns of a trial balance for total debits minus total credits \<open>raw\<close>: a
  positive difference in the debit column, a negative one, negated, in the credit
  column.
\<close>

definition columns :: "decimal \<Rightarrow> decimal \<times> decimal" where
  "columns raw = (if 0 < raw then raw else 0, if raw < 0 then - raw else 0)"

text \<open>
  Amounts that the context adds without rounding. \<open>on_grid s x\<close>: \<open>x\<close> is a whole
  multiple of \<open>10\<^sup>-\<^sup>s\<close> (whole cents for \<open>s = 2\<close>). \<open>vol xs\<close>: the sum of the absolute
  values. \<open>fits s xs\<close>: the amounts of \<open>xs\<close> are whole multiples of \<open>10\<^sup>-\<^sup>s\<close> and their
  absolute values add up to less than \<open>10\<^sup>2\<^sup>8\<close> such units, so that every sum and
  difference of amounts taken from \<open>xs\<close> has at most 28 digits.
\<close>

definition on_grid :: "nat \<Rightarrow> decimal \<Rightarrow> bool" where
  "on_grid s x = (of_int \<lfloor>x * 10 ^ s\<rfloor> = x * 10 ^ s)"

definition vol :: "decimal list \<Rightarrow> decimal" where
  "vol xs = sum_list (map abs xs)"

definition fits :: "nat \<Rightarrow> decimal list \<Rightarrow> bool" where
  "fits s xs = ((\<forall>x \<in> set xs. on_grid s x) \<and> vol xs * 10 ^ s < 10 ^ 28)"

text \<open>The amounts stored in an account, and in all accounts of a chart.\<close>

definition amounts :: "account \<Rightarrow> decimal list" where
  "amounts a = map e_amount (a_debits a @ a_credits a)"

definition amounts_models :: "account_models \<Rightarrow> decimal list" where
  "amounts_models a = m_debits a @ m_credits a"

definition amounts_console :: "account_console \<Rightarrow> decimal list" where
  "amounts_console a = map snd (c_debits a @ c_credits a)"

definition chart_amounts :: "(string \<times> account) list \<Rightarrow> decimal list" where
  "chart_amounts accts = concat (map (\<lambda>item. amounts (snd item)) accts)"

definition ledger_amounts :: "(string \<times> account_console) list \<Rightarrow> decimal list" where
  "ledger_amounts accts = concat (map (\<lambda>item. amounts_console (snd item)) accts)"

section \<open>Properties\<close>

subsection \<open>Arithmetic of the money helpers\<close>

declare digits.simps [simp del]

lemma digits_bounds: "0 < n \<Longrightarrow> 10 ^ (digits n - 1) \<le> n \<and> n < 10 ^ digits n"
proof (induction n rule: digits.induct)
  case (1 n)
  show ?case
  proof (cases "n < 10")
    case True
    with 1(2) show ?thesis by (simp add: digits.simps [of n])
  next
    case False
    then have pos: "0 < n div 10" by simp
    from 1(1) [OF False pos]
    have lo: "10 ^ (digits (n div 10) - 1) \<le> n div 10" and hi: "n div 10 < 10 ^ digits (n div 10)"
      by simp_all
    have d: "digits n = Suc (digits (n div 10))" using False by (simp add: digits.simps [of n])
    have "10 * 10 ^ (digits (n div 10) - 1) \<le> 10 * (n div 10)" using lo by simp
    also have "\<dots> \<le> n" by simp
    finally have a: "10 ^ (digits n - 1) \<le> n"
      using d by (cases "digits (n div 10)") (simp_all add: digits.simps [of "n div 10"] split: if_splits)
    have "n < 10 * (n div 10 + 1)" by (simp add: dividend_less_times_div)
    also have "\<dots> \<le> 10 * 10 ^ digits (n div 10)" using hi by simp
    finally have b: "n < 10 ^ digits n" using d by simp
    from a b show ?thesis ..
  qed
qed

lemma digits_pos: "0 < digits n"
  by (simp add: digits.simps [of n])


lemma adjusted_bounds:
  assumes "x \<noteq> 0"
  shows "10 powi adjusted x \<le> \<bar>x\<bar> \<and> \<bar>x\<bar> < 10 powi (adjusted x + 1)"
proof -
  obtain p q where pq: "quotient_of \<bar>x\<bar> = (p, q)" by (cases "quotient_of \<bar>x\<bar>")
  have q: "0 < q" using pq by (rule quotient_of_denom_pos)
  have x: "\<bar>x\<bar> = of_int p / of_int q" using pq by (rule quotient_of_div)
  have "0 < \<bar>x\<bar>" using assms by simp
  then have p: "0 < p" using q unfolding x by (simp add: zero_less_divide_iff)
  define dp where "dp = digits (nat p)"
  define dq where "dq = digits (nat q)"
  have dp: "0 < dp" and dq: "0 < dq" by (simp_all add: dp_def dq_def digits_pos)
  have np: "10 ^ (dp - 1) \<le> nat p \<and> nat p < 10 ^ dp"
    unfolding dp_def using p by (intro digits_bounds) simp
  have "(of_nat (10 ^ (dp - 1)) :: rat) \<le> of_nat (nat p)" using np by (simp only: of_nat_le_iff)
  then have plo: "(10::rat) ^ (dp - 1) \<le> of_int p" using p by simp
  have "(of_nat (nat p) :: rat) < of_nat (10 ^ dp)" using np by (simp only: of_nat_less_iff)
  then have phi: "of_int p < (10::rat) ^ dp" using p by simp
  have nq: "10 ^ (dq - 1) \<le> nat q \<and> nat q < 10 ^ dq"
    unfolding dq_def using q by (intro digits_bounds) simp
  have "(of_nat (10 ^ (dq - 1)) :: rat) \<le> of_nat (nat q)" using nq by (simp only: of_nat_le_iff)
  then have qlo: "(10::rat) ^ (dq - 1) \<le> of_int q" using q by simp
  have "(of_nat (nat q) :: rat) < of_nat (10 ^ dq)" using nq by (simp only: of_nat_less_iff)
  then have qhi: "of_int q < (10::rat) ^ dq" using q by simp
  define d where "d = int dp - int dq"
  have e1: "(10::rat) powi (d - 1) = 10 ^ (dp - 1) / 10 ^ dq"
  proof -
    have "d - 1 = int (dp - 1) - int dq" using dp by (simp add: d_def)
    then show ?thesis by (simp add: power_int_diff)
  qed
  have e2: "(10::rat) powi (d + 1) = 10 ^ dp / 10 ^ (dq - 1)"
  proof -
    have "d + 1 = int dp - int (dq - 1)" using dq by (simp add: d_def)
    then show ?thesis by (simp add: power_int_diff)
  qed
  have A: "10 powi (d - 1) \<le> \<bar>x\<bar>"
    unfolding e1 x using plo qhi q p by (intro frac_le) simp_all
  have B: "\<bar>x\<bar> < 10 powi (d + 1)"
    unfolding e2 x using phi qlo p by (intro frac_less) simp_all
  have adj: "adjusted x = (if 10 powi d \<le> \<bar>x\<bar> then d else d - 1)"
    by (simp add: adjusted_def pq d_def dp_def dq_def Let_def)
  show ?thesis
  proof (cases "10 powi d \<le> \<bar>x\<bar>")
    case True
    with adj B show ?thesis by simp
  next
    case False
    with adj A show ?thesis by simp
  qed
qed

lemma floor_rat_numeral_div [simp]:
  "\<lfloor>(numeral a :: rat) / numeral b\<rfloor> = numeral a div numeral b"
  by (metis floor_divide_of_int_eq of_int_numeral)

lemma floor_rat_one_div [simp]: "\<lfloor>(1 :: rat) / numeral b\<rfloor> = 1 div numeral b"
  by (metis floor_divide_of_int_eq of_int_1 of_int_numeral)

lemma floor_rat_neg_numeral_div [simp]:
  "\<lfloor>- ((numeral a :: rat) / numeral b)\<rfloor> = - numeral a div numeral b"
  by (metis floor_divide_of_int_eq of_int_minus of_int_numeral minus_divide_left)

lemma adjusted_unique:
  assumes lo: "10 powi e \<le> \<bar>x\<bar>" and hi: "\<bar>x\<bar> < 10 powi (e + 1)"
  shows "adjusted x = e"
proof -
  have "(0::rat) < 10 powi e" by (rule zero_less_power_int) simp
  with lo have "0 < \<bar>x\<bar>" by linarith
  then have nz: "x \<noteq> 0" by simp
  note b = adjusted_bounds [OF nz]
  have lt1: "(10::rat) powi adjusted x < 10 powi (e + 1)" using b hi by linarith
  have 1: "adjusted x < e + 1"
  proof (rule ccontr)
    assume "\<not> adjusted x < e + 1"
    then have "e + 1 \<le> adjusted x" by simp
    then have "(10::rat) powi (e + 1) \<le> 10 powi adjusted x" by (rule power_int_increasing) simp
    with lt1 show False by simp
  qed
  have lt2: "(10::rat) powi e < 10 powi (adjusted x + 1)" using b lo by linarith
  have 2: "e < adjusted x + 1"
  proof (rule ccontr)
    assume "\<not> e < adjusted x + 1"
    then have "adjusted x + 1 \<le> e" by simp
    then have "(10::rat) powi (adjusted x + 1) \<le> 10 powi e" by (rule power_int_increasing) simp
    with lt2 show False by simp
  qed
  from 1 2 show ?thesis by simp
qed

lemma round_half_even_of_int [simp]: "round_half_even (of_int k) = k"
  by (simp add: round_half_even_def)

lemma round_half_up_of_int [simp]: "round_half_up (of_int k) = k"
  by (simp add: round_half_up_def)

lemma round_half_even_numeral [simp]: "round_half_even (numeral n) = numeral n"
  using round_half_even_of_int [of "numeral n"] by simp

lemma round_half_up_numeral [simp]: "round_half_up (numeral n) = numeral n"
  using round_half_up_of_int [of "numeral n"] by simp


lemma round_half_even_ge_floor: "\<lfloor>y\<rfloor> \<le> round_half_even y"
  by (simp add: round_half_even_def Let_def)

lemma round_half_even_le_floor: "round_half_even y \<le> \<lfloor>y\<rfloor> + 1"
  by (simp add: round_half_even_def Let_def)

lemma round_prec_0 [simp]: "round_prec 0 = 0"
  by (simp add: round_prec_def)

lemma round_prec_eval:
  assumes lo: "10 powi e \<le> \<bar>x\<bar>" and hi: "\<bar>x\<bar> < 10 powi (e + 1)"
  shows "round_prec x = of_int (round_half_even (x / 10 powi (e - 27))) * 10 powi (e - 27)"
proof -
  have "(0::rat) < 10 powi e" by (rule zero_less_power_int) simp
  with lo have "0 < \<bar>x\<bar>" by linarith
  then have nz: "x \<noteq> 0" by simp
  show ?thesis using nz adjusted_unique [OF lo hi] by (simp add: round_prec_def Let_def)
qed

lemma round_prec_pos:
  assumes "0 < x"
  shows "0 < round_prec x"
proof -
  from assms have nz: "x \<noteq> 0" by simp
  define q where "q = adjusted x - 27"
  have p: "(0::rat) < 10 powi q" by (rule zero_less_power_int) simp
  have "10 powi adjusted x \<le> x" using adjusted_bounds [OF nz] assms by simp
  then have "10 powi adjusted x / 10 powi q \<le> x / 10 powi q"
    using p by (simp add: divide_right_mono)
  moreover have "(10::rat) powi adjusted x / 10 powi q = 10 powi (adjusted x - q)"
    by (simp add: power_int_diff)
  moreover have "adjusted x - q = 27" by (simp add: q_def)
  ultimately have "(10::rat) ^ 27 \<le> x / 10 powi q" by simp
  moreover have "(1::rat) \<le> 10 ^ 27" by simp
  ultimately have "(1::rat) \<le> x / 10 powi q" by (rule order.trans [rotated])
  then have "1 \<le> \<lfloor>x / 10 powi q\<rfloor>" by (simp add: le_floor_iff)
  with round_half_even_ge_floor [of "x / 10 powi q"]
  have "0 < round_half_even (x / 10 powi q)" by linarith
  then have "(0::rat) < of_int (round_half_even (x / 10 powi q)) * 10 powi q"
    using p by simp
  then show ?thesis using nz by (simp add: round_prec_def q_def Let_def)
qed

lemma round_prec_neg:
  assumes "x < 0"
  shows "round_prec x < 0"
proof -
  from assms have nz: "x \<noteq> 0" by simp
  define q where "q = adjusted x - 27"
  have p: "(0::rat) < 10 powi q" by (rule zero_less_power_int) simp
  have h: "10 powi adjusted x \<le> - x" using adjusted_bounds [OF nz] assms by simp
  have "10 powi adjusted x / 10 powi q \<le> (- x) / 10 powi q"
    by (rule divide_right_mono [OF h]) (use p in simp)
  moreover have "(10::rat) powi adjusted x / 10 powi q = 10 powi (adjusted x - q)"
    by (simp add: power_int_diff)
  moreover have "adjusted x - q = 27" by (simp add: q_def)
  ultimately have "(10::rat) ^ 27 \<le> - (x / 10 powi q)" by simp
  moreover have "(2::rat) \<le> 10 ^ 27" by simp
  ultimately have "x / 10 powi q \<le> - 2" by linarith
  then have "\<lfloor>x / 10 powi q\<rfloor> \<le> - 2" by (metis floor_mono floor_of_int of_int_minus of_int_numeral)
  with round_half_even_le_floor [of "x / 10 powi q"]
  have "round_half_even (x / 10 powi q) < 0" by linarith
  then have "of_int (round_half_even (x / 10 powi q)) * 10 powi q < (0::rat)"
    using p by (simp add: mult_less_0_iff)
  then show ?thesis using nz by (simp add: round_prec_def q_def Let_def)
qed

lemma on_grid_iff: "on_grid s x \<longleftrightarrow> x * 10 ^ s \<in> \<int>"
  unfolding on_grid_def by (metis Ints_of_int of_int_floor)

lemma on_grid_0 [simp]: "on_grid s 0"
  by (simp add: on_grid_iff)

lemma on_grid_add: "on_grid s x \<Longrightarrow> on_grid s y \<Longrightarrow> on_grid s (x + y)"
  by (simp add: on_grid_iff distrib_right)

lemma on_grid_minus: "on_grid s x \<Longrightarrow> on_grid s (- x)"
  by (simp add: on_grid_iff)

lemma on_grid_diff: "on_grid s x \<Longrightarrow> on_grid s y \<Longrightarrow> on_grid s (x - y)"
  by (simp add: on_grid_iff left_diff_distrib)

lemma on_grid_sum_list: "\<forall>x \<in> set xs. on_grid s x \<Longrightarrow> on_grid s (sum_list xs)"
  by (induction xs) (simp_all add: on_grid_add)

lemma round_prec_exact:
  assumes g: "on_grid s x" and b: "\<bar>x\<bar> * 10 ^ s < 10 ^ 28"
  shows "round_prec x = x"
proof (cases "x = 0")
  case True
  then show ?thesis by simp
next
  case nz: False
  from g obtain k :: int where k: "x * 10 ^ s = of_int k"
    unfolding on_grid_iff by (auto elim: Ints_cases)
  define q where "q = adjusted x - 27"
  have "\<bar>x\<bar> < 10 ^ 28 / 10 ^ s" using b by (simp add: pos_less_divide_eq)
  also have "\<dots> = 10 powi (28 - int s)" by (simp add: power_int_diff)
  finally have "(10::rat) powi adjusted x < 10 powi (28 - int s)"
    using adjusted_bounds [OF nz] by linarith
  have "adjusted x < 28 - int s"
  proof (rule ccontr)
    assume "\<not> adjusted x < 28 - int s"
    then have "28 - int s \<le> adjusted x" by simp
    then have "(10::rat) powi (28 - int s) \<le> 10 powi adjusted x"
      by (rule power_int_increasing) simp
    with \<open>(10::rat) powi adjusted x < 10 powi (28 - int s)\<close> show False by simp
  qed
  then have le: "q + int s \<le> 0" by (simp add: q_def)
  define n where "n = nat (- (q + int s))"
  have q: "q = - int (s + n)" using le by (simp add: n_def)
  have pq: "(10::rat) powi q = 1 / 10 ^ (s + n)"
    unfolding q by (simp only: power_int_minus_divide power_int_of_nat)
  have "x / 10 powi q = x * 10 ^ s * 10 ^ n" by (simp add: pq power_add)
  also have "\<dots> = of_int (k * 10 ^ n)" by (simp add: k)
  finally have r0: "x / 10 powi q = of_int (k * 10 ^ n)" .
  have r: "round_half_even (x / 10 powi q) = k * 10 ^ n"
    unfolding r0 by (rule round_half_even_of_int)
  have "of_int (k * 10 ^ n) * 10 powi q = x * 10 ^ s * 10 ^ n / 10 ^ (s + n)"
    by (simp add: pq k)
  also have "\<dots> = x" by (simp add: power_add)
  finally show ?thesis using nz by (simp add: round_prec_def Let_def r flip: q_def)
qed

lemma abs_sum_list_le_vol: "\<bar>sum_list xs\<bar> \<le> vol xs"
  unfolding vol_def by (induction xs) auto

lemma vol_nonneg: "0 \<le> vol xs"
  unfolding vol_def by (induction xs) simp_all

lemma vol_append [simp]: "vol (xs @ ys) = vol xs + vol ys"
  by (simp add: vol_def)

lemma vol_Nil [simp]: "vol [] = 0"
  by (simp add: vol_def)

lemma vol_Cons [simp]: "vol (x # xs) = \<bar>x\<bar> + vol xs"
  by (simp add: vol_def)

lemma vol_mset: "mset xs = mset ys \<Longrightarrow> vol xs = vol ys"
  unfolding vol_def by (metis mset_map sum_mset_sum_list)

lemma vol_mono:
  assumes "mset ys \<subseteq># mset xs"
  shows "vol ys \<le> vol xs"
proof -
  from assms obtain C where "mset xs = mset ys + C"
    by (auto simp: mset_subset_eq_exists_conv)
  then obtain zs where "mset xs = mset (ys @ zs)" by (metis ex_mset mset_append)
  then have "vol xs = vol (ys @ zs)" by (rule vol_mset)
  then show ?thesis using vol_nonneg [of zs] by simp
qed

lemma fits_mono:
  assumes "mset ys \<subseteq># mset xs" and "fits s xs"
  shows "fits s ys"
proof -
  have "set ys \<subseteq> set xs" using assms(1) by (metis set_mset_mono set_mset_mset)
  moreover have le: "vol ys * 10 ^ s \<le> vol xs * 10 ^ s"
    by (rule mult_right_mono [OF vol_mono [OF assms(1)]]) simp
  moreover have lt: "vol xs * 10 ^ s < 10 ^ 28" using assms(2) by (simp add: fits_def)
  moreover have "vol ys * 10 ^ s < 10 ^ 28" using le lt by (rule le_less_trans)
  moreover have "\<forall>x \<in> set xs. on_grid s x" using assms(2) by (simp add: fits_def)
  ultimately show ?thesis unfolding fits_def by blast
qed

lemma fits_exact:
  assumes "fits s zs" and "on_grid s x" and "\<bar>x\<bar> \<le> vol zs"
  shows "round_prec x = x"
proof (rule round_prec_exact [OF assms(2)])
  have "\<bar>x\<bar> * 10 ^ s \<le> vol zs * 10 ^ s" using assms(3) by (simp add: mult_right_mono)
  then show "\<bar>x\<bar> * 10 ^ s < 10 ^ 28" using assms(1) unfolding fits_def by linarith
qed

lemma foldl_add_decimal_exact:
  assumes "fits s zs" and "on_grid s a" and "\<forall>x \<in> set xs. on_grid s x"
    and "\<bar>a\<bar> + vol xs \<le> vol zs"
  shows "foldl add_decimal a xs = a + sum_list xs"
  using assms(2-)
proof (induction xs arbitrary: a)
  case Nil
  then show ?case by simp
next
  case (Cons x xs)
  have g: "on_grid s (a + x)" using Cons.prems by (simp add: on_grid_add)
  have b: "\<bar>a + x\<bar> \<le> vol zs" using Cons.prems(3) vol_nonneg [of xs] by simp
  have e: "add_decimal a x = a + x"
    unfolding add_decimal_def by (rule fits_exact [OF assms(1) g b])
  have "foldl add_decimal (a + x) xs = a + x + sum_list xs"
  proof (rule Cons.IH [OF g])
    show "\<forall>x \<in> set xs. on_grid s x" using Cons.prems(2) by simp
    show "\<bar>a + x\<bar> + vol xs \<le> vol zs" using Cons.prems(3) by simp
  qed
  then show ?case by (simp add: e)
qed

lemma sum_decimal_exact:
  assumes "fits s zs" and "mset xs \<subseteq># mset zs"
  shows "sum_decimal 0 xs = sum_list xs"
proof -
  have w: "fits s xs" using assms by (metis fits_mono)
  have "foldl add_decimal 0 xs = 0 + sum_list xs"
  proof (rule foldl_add_decimal_exact [OF assms(1)])
    show "\<forall>x \<in> set xs. on_grid s x" using w by (simp add: fits_def)
    show "\<bar>0\<bar> + vol xs \<le> vol zs" using vol_mono [OF assms(2)] by simp
  qed simp
  then show ?thesis by (simp add: sum_decimal_def)
qed


subsection \<open>Balance of an account\<close>

lemma credit_normal_iff:
  "ACCOUNT_TYPES t = credit_normal \<longleftrightarrow> t = Liability \<or> t = Equity \<or> t = Revenue"
  by (cases t) simp_all

text \<open>
  Two lists of amounts that fit: their totals and the differences of the totals
  are computed without rounding.
\<close>

lemma signed_sum_exact:
  assumes f: "fits s zs" and sub: "mset (xs @ ys) \<subseteq># mset zs"
  shows "sum_decimal 0 xs = sum_list xs"
    and "sum_decimal 0 ys = sum_list ys"
    and "sub_decimal (sum_list xs) (sum_list ys) = sum_list xs - sum_list ys"
    and "neg_decimal (sum_list xs - sum_list ys) = - (sum_list xs - sum_list ys)"
proof -
  have w: "fits s (xs @ ys)" using f sub by (metis fits_mono)
  have gx: "\<forall>x \<in> set xs. on_grid s x" and gy: "\<forall>x \<in> set ys. on_grid s x"
    using w by (simp_all add: fits_def)
  have "mset xs \<subseteq># mset (xs @ ys)" and "mset ys \<subseteq># mset (xs @ ys)" by simp_all
  then have sx: "mset xs \<subseteq># mset zs" and sy: "mset ys \<subseteq># mset zs"
    using sub by (blast intro: subset_mset.order_trans)+
  show "sum_decimal 0 xs = sum_list xs" by (rule sum_decimal_exact [OF f sx])
  show "sum_decimal 0 ys = sum_list ys" by (rule sum_decimal_exact [OF f sy])
  have g: "on_grid s (sum_list xs - sum_list ys)"
    by (intro on_grid_diff on_grid_sum_list gx gy)
  have "\<bar>sum_list xs - sum_list ys\<bar> \<le> vol xs + vol ys"
    using abs_sum_list_le_vol [of xs] abs_sum_list_le_vol [of ys] by linarith
  also have "\<dots> = vol (xs @ ys)" by simp
  also have "\<dots> \<le> vol zs" by (rule vol_mono [OF sub])
  finally have b: "\<bar>sum_list xs - sum_list ys\<bar> \<le> vol zs" .
  show "sub_decimal (sum_list xs) (sum_list ys) = sum_list xs - sum_list ys"
    unfolding sub_decimal_def by (rule fits_exact [OF f g b])
  show "neg_decimal (sum_list xs - sum_list ys) = - (sum_list xs - sum_list ys)"
    unfolding neg_decimal_def
    by (rule fits_exact [OF f on_grid_minus [OF g]]) (use b in simp)
qed

lemma balance_eq:
  assumes "fits s (amounts a)"
  shows "balance a =
    flip (a_type a) (sum_list (map e_amount (a_debits a)) - sum_list (map e_amount (a_credits a)))"
proof -
  have sub: "mset (map e_amount (a_debits a) @ map e_amount (a_credits a)) \<subseteq># mset (amounts a)"
    by (simp add: amounts_def)
  note e = signed_sum_exact [OF assms sub]
  show ?thesis
    by (simp add: balance_def total_debit_def total_credit_def e flip_def credit_normal_iff
        Let_def)
qed

lemma balance_models_eq:
  assumes "fits s (amounts_models a)"
  shows "balance_models a = flip (m_type a) (sum_list (m_debits a) - sum_list (m_credits a))"
proof -
  have sub: "mset (m_debits a @ m_credits a) \<subseteq># mset (amounts_models a)"
    by (simp add: amounts_models_def)
  note e = signed_sum_exact [OF assms sub]
  show ?thesis
    by (simp add: balance_models_def raw_balance_models_def total_debit_models_def
        total_credit_models_def e flip_def credit_normal_iff Let_def)
qed

lemma balance_console_eq:
  assumes "fits s (amounts_console a)"
  shows "balance_console a =
    flip_console (c_type a) (sum_list (map snd (c_debits a)) - sum_list (map snd (c_credits a)))"
proof -
  have sub: "mset (map snd (c_debits a) @ map snd (c_credits a)) \<subseteq># mset (amounts_console a)"
    by (simp add: amounts_console_def)
  have sub': "mset (map snd (c_credits a) @ map snd (c_debits a)) \<subseteq># mset (amounts_console a)"
    by (simp add: amounts_console_def)
  note e = signed_sum_exact [OF assms sub] signed_sum_exact(3) [OF assms sub']
  show ?thesis
    by (simp add: balance_console_def e flip_console_def Let_def)
qed

lemma run_calls_type: "a_type (run_calls today a cs) = a_type a"
  by (induction today a cs rule: run_calls.induct) (simp_all add: debit_def credit_def)

lemma run_calls_debits:
  "map e_amount (a_debits (run_calls today a cs)) = map e_amount (a_debits a) @ debited cs"
  by (induction today a cs rule: run_calls.induct) (simp_all add: debit_def credit_def)

lemma run_calls_credits:
  "map e_amount (a_credits (run_calls today a cs)) = map e_amount (a_credits a) @ credited cs"
  by (induction today a cs rule: run_calls.induct) (simp_all add: debit_def credit_def)

lemma run_calls_models_type: "m_type (run_calls_models a cs) = m_type a"
  by (induction a cs rule: run_calls_models.induct)
     (simp_all add: debit_models_def credit_models_def)

lemma run_calls_models_debits:
  "m_debits (run_calls_models a cs) = m_debits a @ map snd (filter fst cs)"
  by (induction a cs rule: run_calls_models.induct)
     (simp_all add: debit_models_def credit_models_def)

lemma run_calls_models_credits:
  "m_credits (run_calls_models a cs) = m_credits a @ map snd (filter (\<lambda>c. \<not> fst c) cs)"
  by (induction a cs rule: run_calls_models.induct)
     (simp_all add: debit_models_def credit_models_def)

text \<open>
  Rounding of amounts in whole cents below \<open>10\<^sup>2\<^sup>6\<close>, as a rewrite rule for
  evaluating the definitions on concrete amounts.
\<close>

lemma round_prec_money:
  "of_int \<lfloor>x * 100\<rfloor> = x * 100 \<Longrightarrow> \<bar>x\<bar> < 100000000000000000000000000 \<Longrightarrow> round_prec x = x"
  using round_prec_exact [of 2 x] by (simp add: on_grid_def)

text \<open>
  Claim C3, as stated, fails in two ways. In \<^verbatim>\<open>double_entry.py\<close> the type is an
  unchecked string and the sign is flipped for every type other than
  \<^verbatim>\<open>'Asset'\<close> and \<^verbatim>\<open>'Expense'\<close>: an account of type \<^verbatim>\<open>'Contra'\<close> with one debit of 100
  has balance -100, though its type is none of Liability, Equity, Revenue. And
  the sums are \<^verbatim>\<open>Decimal\<close> sums, rounded to 28 digits after each addition: a Cash
  account of \<^verbatim>\<open>app.py\<close> debited \<open>10\<^sup>2\<^sup>8\<close> and 0.01 and credited \<open>10\<^sup>2\<^sup>8\<close> has balance 0,
  not 0.01.
\<close>

theorem C3_counterexample:
  "balance_console
     \<lparr>c_code = ''1900'', c_name = ''Suspense'', c_type = ''Contra'',
      c_debits = [(''3f2b8c1a'', 100)], c_credits = []\<rparr> = - 100
   \<and> balance
       (run_calls (2024, 1, 1) (Account (2024, 1, 1) ''Cash'' Asset ''Current Assets'')
          [Debit (10 ^ 28) ''in'' None, Debit (1 / 100) ''in'' None,
           Credit (10 ^ 28) ''out'' None]) = 0
   \<and> sum_list [10 ^ 28, 1 / 100] - sum_list [10 ^ 28] = (1 / 100 :: rat)"
proof -
  have r1: "round_prec (10000000000000000000000000000 :: rat) = 10000000000000000000000000000"
    using round_prec_eval [of 28 "10000000000000000000000000000 :: rat"] by simp
  have r2: "round_prec (1000000000000000000000000000001 / 100 :: rat)
      = 10000000000000000000000000000"
    using round_prec_eval [of 28 "1000000000000000000000000000001 / 100 :: rat"]
    by (simp add: round_half_even_def)
  show ?thesis
    by (simp add: balance_console_def balance_def total_debit_def total_credit_def
        sum_decimal_def add_decimal_def sub_decimal_def neg_decimal_def Account_def debit_def
        credit_def r1 r2 round_prec_money)
qed

text \<open>
  Claim C3, amended. In all three implementations the balance of an account is
  computed from the type and the two entry lists alone (the records hold no
  balance field; a sequence of debit and credit calls extends the lists and keeps
  the type). Whenever the stored amounts fit (they are whole multiples of one
  power of ten and their absolute values total less than \<open>10\<^sup>2\<^sup>8\<close> such units, so
  that no \<^verbatim>\<open>Decimal\<close> operation rounds), the balance is the sum of the stored debit
  amounts minus the sum of the stored credit amounts, negated in \<^verbatim>\<open>app.py\<close> and
  \<^verbatim>\<open>models.py\<close> exactly for the types Liability, Equity and Revenue, and in
  \<^verbatim>\<open>double_entry.py\<close> for every type string other than \<^verbatim>\<open>'Asset'\<close> and \<^verbatim>\<open>'Expense'\<close>.
\<close>

theorem C3_balance_is_signed_sum:
  "(fits scale (amounts a) \<longrightarrow>
      balance a =
        flip (a_type a)
          (sum_list (map e_amount (a_debits a)) - sum_list (map e_amount (a_credits a))))
   \<and> (fits scale (amounts (run_calls today a cs)) \<longrightarrow>
      balance (run_calls today a cs) =
        flip (a_type a)
          ((sum_list (map e_amount (a_debits a)) + sum_list (debited cs))
           - (sum_list (map e_amount (a_credits a)) + sum_list (credited cs))))
   \<and> (fits scale (amounts_models m) \<longrightarrow>
      balance_models m = flip (m_type m) (sum_list (m_debits m) - sum_list (m_credits m)))
   \<and> (fits scale (amounts_models (run_calls_models m ms)) \<longrightarrow>
      balance_models (run_calls_models m ms) =
        flip (m_type m)
          ((sum_list (m_debits m) + sum_list (map snd (filter fst ms)))
           - (sum_list (m_credits m) + sum_list (map snd (filter (\<lambda>c. \<not> fst c) ms)))))
   \<and> (fits scale (amounts_console c) \<longrightarrow>
      balance_console c =
        flip_console (c_type c)
          (sum_list (map snd (c_debits c)) - sum_list (map snd (c_credits c))))
   \<and> (\<forall>t x. flip t x = (if t \<in> {Liability, Equity, Revenue} then - x else x))
   \<and> (\<forall>t x. flip_console t x = (if t \<in> {''Asset'', ''Expense''} then x else - x))
   \<and> (a_type a = a_type b \<and> map e_amount (a_debits a) = map e_amount (a_debits b)
        \<and> map e_amount (a_credits a) = map e_amount (a_credits b)
        \<longrightarrow> balance a = balance b)
   \<and> (m_type m = m_type n \<and> m_debits m = m_debits n \<and> m_credits m = m_credits n
        \<longrightarrow> balance_models m = balance_models n)
   \<and> (c_type c = c_type d \<and> map snd (c_debits c) = map snd (c_debits d)
        \<and> map snd (c_credits c) = map snd (c_credits d)
        \<longrightarrow> balance_console c = balance_console d)"
proof -
  have 1: "fits scale (amounts (run_calls today a cs)) \<longrightarrow>
      balance (run_calls today a cs) =
        flip (a_type a)
          ((sum_list (map e_amount (a_debits a)) + sum_list (debited cs))
           - (sum_list (map e_amount (a_credits a)) + sum_list (credited cs)))"
    by (simp add: balance_eq run_calls_type run_calls_debits run_calls_credits)
  have 2: "fits scale (amounts_models (run_calls_models m ms)) \<longrightarrow>
      balance_models (run_calls_models m ms) =
        flip (m_type m)
          ((sum_list (m_debits m) + sum_list (map snd (filter fst ms)))
           - (sum_list (m_credits m) + sum_list (map snd (filter (\<lambda>c. \<not> fst c) ms))))"
    by (simp add: balance_models_eq run_calls_models_type run_calls_models_debits
        run_calls_models_credits)
  have 3: "\<forall>t x. flip t x = (if t \<in> {Liability, Equity, Revenue} then - x else x)"
    by (simp add: flip_def)
  have 4: "\<forall>t x. flip_console t x = (if t \<in> {''Asset'', ''Expense''} then x else - x)"
    by (simp add: flip_console_def)
  have 5: "a_type a = a_type b \<and> map e_amount (a_debits a) = map e_amount (a_debits b)
        \<and> map e_amount (a_credits a) = map e_amount (a_credits b)
        \<longrightarrow> balance a = balance b"
    by (simp add: balance_def total_debit_def total_credit_def)
  have 6: "m_type m = m_type n \<and> m_debits m = m_debits n \<and> m_credits m = m_credits n
        \<longrightarrow> balance_models m = balance_models n"
    by (simp add: balance_models_def raw_balance_models_def total_debit_models_def
        total_credit_models_def)
  have 7: "c_type c = c_type d \<and> map snd (c_debits c) = map snd (c_debits d)
        \<and> map snd (c_credits c) = map snd (c_credits d)
        \<longrightarrow> balance_console c = balance_console d"
    by (simp add: balance_console_def)
  show ?thesis
    using 1 2 3 4 5 6 7 balance_eq balance_models_eq balance_console_eq by blast
qed

theorem C3_witness:
  "balance (run_calls (2024, 1, 1) (Account (2024, 1, 1) ''Bank Loan'' Liability ''Long Term Liabilities'')
       [Credit 500 ''loan'' None, Debit 120 ''repayment'' (Some (2024, 2, 1))]) = 380
   \<and> balance (run_calls (2024, 1, 1) (Account (2024, 1, 1) ''Cash'' Asset ''Current Assets'')
       [Credit 500 ''paid'' None, Debit 120 ''received'' None]) = - 380
   \<and> balance_models (run_calls_models (Account_models ''Equity'' Equity) [(False, 75), (True, 25)]) = 50
   \<and> balance_console \<lparr>c_code = ''4000'', c_name = ''Revenue'', c_type = ''Revenue'',
        c_debits = [(''a'', 10)], c_credits = [(''b'', 60)]\<rparr> = 50
   \<and> balance (Account (2024, 1, 1) ''Cash'' Asset ''Current Assets'')
       = balance (Account (2025, 6, 30) ''Petty cash'' Asset ''Other Assets'')"
  using
    C3_balance_is_signed_sum [of 0
      "Account (2024, 1, 1) ''Bank Loan'' Liability ''Long Term Liabilities''" "(2024, 1, 1)"
      "[Credit 500 ''loan'' None, Debit 120 ''repayment'' (Some (2024, 2, 1))]"
      "Account_models ''Equity'' Equity" "[(False, 75), (True, 25)]"
      "\<lparr>c_code = ''4000'', c_name = ''Revenue'', c_type = ''Revenue'',
        c_debits = [(''a'', 10)], c_credits = [(''b'', 60)]\<rparr>"
      "Account (2024, 1, 1) ''Bank Loan'' Liability ''Long Term Liabilities''"
      "Account_models ''Equity'' Equity"
      "\<lparr>c_code = ''4000'', c_name = ''Revenue'', c_type = ''Revenue'',
        c_debits = [(''a'', 10)], c_credits = [(''b'', 60)]\<rparr>"]
    C3_balance_is_signed_sum [of 0
      "Account (2024, 1, 1) ''Cash'' Asset ''Current Assets''" "(2024, 1, 1)"
      "[Credit 500 ''paid'' None, Debit 120 ''received'' None]"
      "Account_models ''Equity'' Equity" "[]"
      "\<lparr>c_code = ''4000'', c_name = ''Revenue'', c_type = ''Revenue'',
        c_debits = [(''a'', 10)], c_credits = [(''b'', 60)]\<rparr>"
      "Account (2025, 6, 30) ''Petty cash'' Asset ''Other Assets''"
      "Account_models ''Equity'' Equity"
      "\<lparr>c_code = ''4000'', c_name = ''Revenue'', c_type = ''Revenue'',
        c_debits = [(''a'', 10)], c_credits = [(''b'', 60)]\<rparr>"]
  by (simp add: Account_def Account_models_def flip_def flip_console_def fits_def on_grid_def
      vol_def amounts_def amounts_models_def amounts_console_def debit_def credit_def
      debit_models_def credit_models_def)


subsection \<open>Amount checks of the Account classes\<close>

text \<open>
  Claim C6, as stated, fails: \<^verbatim>\<open>Account.debit\<close> and \<^verbatim>\<open>Account.credit\<close> of
  \<^verbatim>\<open>app.py\<close> and \<^verbatim>\<open>models.py\<close> accept the amount \<open>-5\<close> and append it; the
  entry lists are not left unchanged.
\<close>

theorem C6_counterexample:
  "(- 5 :: decimal) \<le> 0
   \<and> a_debits (debit (2024, 1, 1) (Account (2024, 1, 1) ''Cash'' Asset ''Current Assets'')
        (- 5) ''refund'' None)
       = [\<lparr>e_amount = - 5, e_description = ''refund'', e_date = (2024, 1, 1)\<rparr>]
   \<and> a_credits (credit (2024, 1, 1) (Account (2024, 1, 1) ''Cash'' Asset ''Current Assets'')
        0 ''nothing'' None)
       = [\<lparr>e_amount = 0, e_description = ''nothing'', e_date = (2024, 1, 1)\<rparr>]
   \<and> m_debits (debit_models (Account_models ''Cash'' Asset) (- 5) ''refund'') = [- 5]
   \<and> m_credits (credit_models (Account_models ''Cash'' Asset) 0 ''nothing'') = [0]"
  by (simp add: debit_def credit_def debit_models_def credit_models_def Account_def
      Account_models_def)

text \<open>
  Claim C6, amended. \<^verbatim>\<open>Account.debit\<close> and \<^verbatim>\<open>Account.credit\<close> (\<^verbatim>\<open>app.py\<close>,
  \<^verbatim>\<open>models.py\<close>) never fail and append every amount, a non-positive one
  included, to their own list, leaving the other list as it was. The check of the
  amount is the separate method \<^verbatim>\<open>Account.validate_transaction\<close> of
  \<^verbatim>\<open>models.py\<close>, which raises exactly for the amounts \<open>\<le> 0\<close> and returns
  nothing otherwise; it is left to the caller to call it.
\<close>

theorem C6_debit_credit_append_unchecked:
  "a_debits (debit today a amount description when) =
     a_debits a @ [\<lparr>e_amount = amount, e_description = description,
                    e_date = (case when of Some d \<Rightarrow> d | None \<Rightarrow> today)\<rparr>]
   \<and> a_credits (debit today a amount description when) = a_credits a
   \<and> a_credits (credit today a amount description when) =
     a_credits a @ [\<lparr>e_amount = amount, e_description = description,
                     e_date = (case when of Some d \<Rightarrow> d | None \<Rightarrow> today)\<rparr>]
   \<and> a_debits (credit today a amount description when) = a_debits a
   \<and> m_debits (debit_models m amount description) = m_debits m @ [amount]
   \<and> m_credits (debit_models m amount description) = m_credits m
   \<and> m_credits (credit_models m amount description) = m_credits m @ [amount]
   \<and> m_debits (credit_models m amount description) = m_debits m
   \<and> validate_transaction_models m is_debit amount =
       (if amount \<le> 0 then Inl InvalidAmount else Inr ())"
  by (simp add: debit_def credit_def debit_models_def credit_models_def
      validate_transaction_models_def)


subsection \<open>Creating an account that exists\<close>

lemma map_of_Some_key: "map_of al k = Some v \<Longrightarrow> k \<in> fst ` set al"
  by (metis domI dom_map_of_conv_image_fst)

text \<open>
  Claim C10. When the code is already a key of the ledger's account dict,
  \<^verbatim>\<open>create_account\<close> returns (it has no failing branch) and the ledger is the one
  before the call, whatever name and type are passed: the account stored under the
  code, with its debit and credit entries, is unchanged.
\<close>

theorem C10_create_account_existing:
  "map_of (l_accounts L) code = Some acct \<Longrightarrow>
     create_account L code name typ = L
     \<and> map_of (l_accounts (create_account L code name typ)) code = Some acct"
  by (simp add: create_account_def map_of_Some_key)

theorem C10_witness:
  "map_of (l_accounts \<lparr>l_accounts = [(''1000'', \<lparr>c_code = ''1000'', c_name = ''Cash'', c_type = ''Asset'',
         c_debits = [(''je1'', 250)], c_credits = [(''je2'', 40)]\<rparr>)], l_journal = [], l_drawn = 2\<rparr>)
     ''1000''
     = Some \<lparr>c_code = ''1000'', c_name = ''Cash'', c_type = ''Asset'',
         c_debits = [(''je1'', 250)], c_credits = [(''je2'', 40)]\<rparr>
   \<and> create_account \<lparr>l_accounts = [(''1000'', \<lparr>c_code = ''1000'', c_name = ''Cash'', c_type = ''Asset'',
         c_debits = [(''je1'', 250)], c_credits = [(''je2'', 40)]\<rparr>)], l_journal = [], l_drawn = 2\<rparr>
       ''1000'' ''Loans'' ''Liability''
     = \<lparr>l_accounts = [(''1000'', \<lparr>c_code = ''1000'', c_name = ''Cash'', c_type = ''Asset'',
         c_debits = [(''je1'', 250)], c_credits = [(''je2'', 40)]\<rparr>)], l_journal = [], l_drawn = 2\<rparr>"
  using C10_create_account_existing [of
      "\<lparr>l_accounts = [(''1000'', \<lparr>c_code = ''1000'', c_name = ''Cash'', c_type = ''Asset'',
         c_debits = [(''je1'', 250)], c_credits = [(''je2'', 40)]\<rparr>)], l_journal = [], l_drawn = 2\<rparr>"
      "''1000''"
      "\<lparr>c_code = ''1000'', c_name = ''Cash'', c_type = ''Asset'',
         c_debits = [(''je1'', 250)], c_credits = [(''je2'', 40)]\<rparr>"
      "''Loans''" "''Liability''"]
  by simp


subsection \<open>The seeded charts\<close>

lemma Ledger_eq:
  "Ledger =
     \<lparr>l_accounts =
        map (\<lambda>(code, name, typ).
               (code, \<lparr>c_code = code, c_name = name, c_type = typ, c_debits = [], c_credits = []\<rparr>))
          seed_list,
      l_journal = [], l_drawn = 0\<rparr>"
  by (simp add: Ledger_def seed_accounts_def seed_list_def create_account_def)


subsection \<open>Validation before posting\<close>

lemma post_transaction_invalid:
  "validate_transaction debits credits = Inl e \<Longrightarrow>
     post_transaction today s debits credits description transaction_date = (Inl e, s)"
  by (simp add: post_transaction_def)

lemma post_transaction_console_invalid:
  "new_journal_entry uuid today L description lines = (Inl e, L') \<Longrightarrow>
     post_transaction_console uuid today L description lines = (Inl e, L')"
  by (simp add: post_transaction_console_def)

text \<open>
  Claim C8, as stated, fails in both implementations. \<^verbatim>\<open>validate_transaction\<close>
  of \<^verbatim>\<open>app.py\<close> accepts lines with the amounts \<open>-5\<close> and \<open>0\<close>, and
  \<^verbatim>\<open>post_transaction\<close> records them; \<^verbatim>\<open>new_journal_entry\<close> of
  \<^verbatim>\<open>double_entry.py\<close> accepts the entirely empty list of lines and stores the
  entry in the journal.
\<close>

theorem C8_counterexample:
  "validate_transaction [(''Cash'', - 5)] [(''Equipment'', - 5)] = Inr ()
   \<and> validate_transaction [(''Cash'', 0)] [(''Equipment'', 0)] = Inr ()
   \<and> fst (post_transaction (2024, 1, 1) (initial_state (2024, 1, 1))
             [(''Cash'', - 5)] [(''Equipment'', - 5)] ''Negative'' None)
       = Inr \<lparr>t_id = 1, t_date = (2024, 1, 1), t_description = ''Negative'', t_amount = - 5,
              t_debit_entries = [(''Cash'', - 5)], t_credit_entries = [(''Equipment'', - 5)]\<rparr>
   \<and> new_journal_entry (\<lambda>n. ''3f2b8c1e-7a90-4d55-8e21-5b6c9d0a1f42'') (2024, 1, 1) Ledger ''Nothing'' []
       = (Inr \<lparr>je_id = ''3f2b8c1e'', je_date = (2024, 1, 1), je_description = ''Nothing'',
               je_lines = [], je_posted = False\<rparr>,
          Ledger\<lparr>l_journal :=
                   [(''3f2b8c1e'', \<lparr>je_id = ''3f2b8c1e'', je_date = (2024, 1, 1),
                       je_description = ''Nothing'', je_lines = [], je_posted = False\<rparr>)],
                 l_drawn := 1\<rparr>)"
  by (simp add: validate_transaction_def post_transaction_def initial_state_def
      INITIAL_ACCOUNTS_def Account_def debit_def credit_def new_journal_entry_def Ledger_eq
      Let_def sum_decimal_def add_decimal_def round_prec_money)

lemma foldl_add_decimal_pos:
  "0 < a \<Longrightarrow> \<forall>x \<in> set xs. 0 < x \<Longrightarrow> 0 < foldl add_decimal a xs"
proof (induction xs arbitrary: a)
  case Nil
  then show ?case by simp
next
  case (Cons x xs)
  have "0 < add_decimal a x"
    unfolding add_decimal_def using Cons.prems by (intro round_prec_pos) simp
  then show ?case using Cons.IH [of "add_decimal a x"] Cons.prems by simp
qed

lemma sum_decimal_pos:
  assumes "xs \<noteq> []" and "\<forall>x \<in> set xs. 0 < x"
  shows "0 < sum_decimal 0 xs"
proof -
  obtain x ys where xs: "xs = x # ys" using assms(1) by (cases xs) auto
  have "0 < add_decimal 0 x"
    unfolding add_decimal_def using assms(2) xs by (intro round_prec_pos) simp
  then show ?thesis
    using foldl_add_decimal_pos [of "add_decimal 0 x" ys] assms(2) xs
    by (simp add: sum_decimal_def)
qed

text \<open>
  Claim C8, amended. The two implementations check different things, each before
  any state changes. The totals they compare are \<^verbatim>\<open>Decimal\<close> sums, which the context
  rounds to 28 digits; when the amounts of the entry fit (whole multiples of one
  power of ten whose absolute values total less than \<open>10\<^sup>2\<^sup>8\<close> such units) the
  totals are the exact sums and any difference is detected.
  \<^item> \<^verbatim>\<open>app.py\<close>: an entry with no debit lines or no credit lines is rejected with
    the empty-entry error, and an entry whose debit total differs from its credit
    total is rejected as unbalanced; the sign of a line amount is not checked (the
    web route checks it before it calls).
  \<^item> \<^verbatim>\<open>double_entry.py\<close>: an entry with a line amount \<open>\<le> 0\<close> is rejected as an
    invalid amount, and an entry of positive amounts whose totals differ is
    rejected as unbalanced. A non-empty entry with lines on one side only is
    therefore rejected with one of these two errors (invalid amount if some amount
    is \<open>\<le> 0\<close>, unbalanced otherwise), never with an empty-entry error; the entirely
    empty entry is accepted.
  In every rejection the state after the call is the state before it.
\<close>

theorem C8_validation_rejects:
  "(debits = [] \<or> credits = [] \<longrightarrow>
      post_transaction today s debits credits description transaction_date = (Inl EmptyEntry, s))
   \<and> (debits \<noteq> [] \<and> credits \<noteq> []
       \<and> sum_decimal 0 (map snd debits) \<noteq> sum_decimal 0 (map snd credits) \<longrightarrow>
      post_transaction today s debits credits description transaction_date =
        (Inl (Unbalanced (sum_decimal 0 (map snd debits)) (sum_decimal 0 (map snd credits))), s))
   \<and> (debits \<noteq> [] \<and> credits \<noteq> [] \<and> fits scale (map snd (debits @ credits))
       \<and> sum_list (map snd debits) \<noteq> sum_list (map snd credits) \<longrightarrow>
      post_transaction today s debits credits description transaction_date =
        (Inl (Unbalanced (sum_list (map snd debits)) (sum_list (map snd credits))), s))
   \<and> ((\<exists>l \<in> set lines. line_amount l \<le> 0) \<longrightarrow>
      post_transaction_console uuid today L description lines = (Inl InvalidAmount, L))
   \<and> ((\<forall>l \<in> set lines. 0 < line_amount l)
       \<and> sum_decimal 0 (map line_amount (filter line_is_debit lines))
           \<noteq> sum_decimal 0 (map line_amount (filter (\<lambda>l. \<not> line_is_debit l) lines)) \<longrightarrow>
      post_transaction_console uuid today L description lines =
        (Inl (Unbalanced (sum_decimal 0 (map line_amount (filter line_is_debit lines)))
                (sum_decimal 0 (map line_amount (filter (\<lambda>l. \<not> line_is_debit l) lines)))), L))
   \<and> ((\<forall>l \<in> set lines. 0 < line_amount l) \<and> fits scale (map line_amount lines)
       \<and> sum_list (map line_amount (filter line_is_debit lines))
           \<noteq> sum_list (map line_amount (filter (\<lambda>l. \<not> line_is_debit l) lines)) \<longrightarrow>
      post_transaction_console uuid today L description lines =
        (Inl (Unbalanced (sum_list (map line_amount (filter line_is_debit lines)))
                (sum_list (map line_amount (filter (\<lambda>l. \<not> line_is_debit l) lines)))), L))
   \<and> (lines \<noteq> []
       \<and> (filter line_is_debit lines = [] \<or> filter (\<lambda>l. \<not> line_is_debit l) lines = []) \<longrightarrow>
      post_transaction_console uuid today L description lines =
        (if \<exists>l \<in> set lines. line_amount l \<le> 0 then (Inl InvalidAmount, L)
         else (Inl (Unbalanced
                      (sum_decimal 0 (map line_amount (filter line_is_debit lines)))
                      (sum_decimal 0 (map line_amount (filter (\<lambda>l. \<not> line_is_debit l) lines)))),
               L)))"
proof (intro conjI impI)
  assume "debits = [] \<or> credits = []"
  then show "post_transaction today s debits credits description transaction_date
      = (Inl EmptyEntry, s)"
    by (intro post_transaction_invalid) (simp add: validate_transaction_def)
next
  assume "debits \<noteq> [] \<and> credits \<noteq> []
      \<and> sum_decimal 0 (map snd debits) \<noteq> sum_decimal 0 (map snd credits)"
  then show "post_transaction today s debits credits description transaction_date =
        (Inl (Unbalanced (sum_decimal 0 (map snd debits)) (sum_decimal 0 (map snd credits))), s)"
    by (intro post_transaction_invalid) (simp add: validate_transaction_def)
next
  assume a: "debits \<noteq> [] \<and> credits \<noteq> [] \<and> fits scale (map snd (debits @ credits))
      \<and> sum_list (map snd debits) \<noteq> sum_list (map snd credits)"
  then have f: "fits scale (map snd (debits @ credits))" by simp
  have sub: "mset (map snd debits @ map snd credits) \<subseteq># mset (map snd (debits @ credits))"
    by simp
  note e = signed_sum_exact(1,2) [OF f sub]
  show "post_transaction today s debits credits description transaction_date =
        (Inl (Unbalanced (sum_list (map snd debits)) (sum_list (map snd credits))), s)"
    using a by (intro post_transaction_invalid) (simp add: validate_transaction_def e)
next
  assume "\<exists>l \<in> set lines. line_amount l \<le> 0"
  then show "post_transaction_console uuid today L description lines = (Inl InvalidAmount, L)"
    by (intro post_transaction_console_invalid) (simp add: new_journal_entry_def)
next
  assume "(\<forall>l \<in> set lines. 0 < line_amount l)
       \<and> sum_decimal 0 (map line_amount (filter line_is_debit lines))
           \<noteq> sum_decimal 0 (map line_amount (filter (\<lambda>l. \<not> line_is_debit l) lines))"
  then show "post_transaction_console uuid today L description lines =
        (Inl (Unbalanced (sum_decimal 0 (map line_amount (filter line_is_debit lines)))
                (sum_decimal 0 (map line_amount (filter (\<lambda>l. \<not> line_is_debit l) lines)))), L)"
    by (intro post_transaction_console_invalid) (auto simp: new_journal_entry_def not_le)
next
  assume a: "(\<forall>l \<in> set lines. 0 < line_amount l) \<and> fits scale (map line_amount lines)
       \<and> sum_list (map line_amount (filter line_is_debit lines))
           \<noteq> sum_list (map line_amount (filter (\<lambda>l. \<not> line_is_debit l) lines))"
  then have f: "fits scale (map line_amount lines)" by simp
  have "mset (filter line_is_debit lines @ filter (\<lambda>l. \<not> line_is_debit l) lines) = mset lines"
    by simp
  then have "mset (map line_amount (filter line_is_debit lines)
        @ map line_amount (filter (\<lambda>l. \<not> line_is_debit l) lines)) = mset (map line_amount lines)"
    by (metis map_append mset_map)
  then have sub: "mset (map line_amount (filter line_is_debit lines)
        @ map line_amount (filter (\<lambda>l. \<not> line_is_debit l) lines))
      \<subseteq># mset (map line_amount lines)"
    by simp
  note e = signed_sum_exact(1,2) [OF f sub]
  show "post_transaction_console uuid today L description lines =
        (Inl (Unbalanced (sum_list (map line_amount (filter line_is_debit lines)))
                (sum_list (map line_amount (filter (\<lambda>l. \<not> line_is_debit l) lines)))), L)"
    using a by (intro post_transaction_console_invalid) (auto simp: new_journal_entry_def not_le e)
next
  assume a: "lines \<noteq> []
       \<and> (filter line_is_debit lines = [] \<or> filter (\<lambda>l. \<not> line_is_debit l) lines = [])"
  show "post_transaction_console uuid today L description lines =
        (if \<exists>l \<in> set lines. line_amount l \<le> 0 then (Inl InvalidAmount, L)
         else (Inl (Unbalanced
                      (sum_decimal 0 (map line_amount (filter line_is_debit lines)))
                      (sum_decimal 0 (map line_amount (filter (\<lambda>l. \<not> line_is_debit l) lines)))),
               L))"
  proof (cases "\<exists>l \<in> set lines. line_amount l \<le> 0")
    case True
    then have "post_transaction_console uuid today L description lines = (Inl InvalidAmount, L)"
      by (intro post_transaction_console_invalid) (simp add: new_journal_entry_def)
    then show ?thesis using True by simp
  next
    case False
    then have pos: "\<forall>l \<in> set lines. 0 < line_amount l" by (auto simp: not_le)
    have split: "filter line_is_debit lines = lines \<or> filter (\<lambda>l. \<not> line_is_debit l) lines = lines"
      using a by (auto simp: filter_empty_conv filter_id_conv)
    have p: "0 < sum_decimal 0 (map line_amount lines)"
      using a pos by (intro sum_decimal_pos) simp_all
    have z: "sum_decimal 0 (map line_amount []) = 0" by (simp add: sum_decimal_def)
    have "sum_decimal 0 (map line_amount (filter line_is_debit lines))
           \<noteq> sum_decimal 0 (map line_amount (filter (\<lambda>l. \<not> line_is_debit l) lines))"
      using a split p z by (metis less_irrefl)
    then have "post_transaction_console uuid today L description lines =
        (Inl (Unbalanced (sum_decimal 0 (map line_amount (filter line_is_debit lines)))
                (sum_decimal 0 (map line_amount (filter (\<lambda>l. \<not> line_is_debit l) lines)))), L)"
      using False by (intro post_transaction_console_invalid) (auto simp: new_journal_entry_def)
    then show ?thesis using False by simp
  qed
qed

theorem C8_witness:
  "post_transaction (2024, 1, 1) (initial_state (2024, 1, 1)) [] [(''Cash'', 10)] ''Gift'' None
     = (Inl EmptyEntry, initial_state (2024, 1, 1))
   \<and> post_transaction (2024, 1, 1) (initial_state (2024, 1, 1))
       [(''Cash'', 100)] [(''Sales Revenue'', 9999 / 100)] ''Sale'' None
     = (Inl (Unbalanced 100 (9999 / 100)), initial_state (2024, 1, 1))
   \<and> post_transaction_console (\<lambda>n. ''3f2b8c1e-7a90-4d55-8e21-5b6c9d0a1f42'') (2024, 1, 1) Ledger
       ''Zero'' [EntryLine ''1000'' 0 True, EntryLine ''3000'' 0 False]
     = (Inl InvalidAmount, Ledger)
   \<and> post_transaction_console (\<lambda>n. ''3f2b8c1e-7a90-4d55-8e21-5b6c9d0a1f42'') (2024, 1, 1) Ledger
       ''Sale'' [EntryLine ''1000'' 100 True, EntryLine ''4000'' (9999 / 100) False]
     = (Inl (Unbalanced 100 (9999 / 100)), Ledger)
   \<and> post_transaction_console (\<lambda>n. ''3f2b8c1e-7a90-4d55-8e21-5b6c9d0a1f42'') (2024, 1, 1)
         Ledger ''One side'' [EntryLine ''1000'' 5 True] = (Inl (Unbalanced 5 0), Ledger)"
  using
    C8_validation_rejects [where debits = "[]" and credits = "[(''Cash'', 10)]"
      and today = "(2024, 1, 1)" and s = "initial_state (2024, 1, 1)"
      and description = "''Gift''" and transaction_date = None]
    C8_validation_rejects [where debits = "[(''Cash'', 100)]"
      and credits = "[(''Sales Revenue'', 9999 / 100)]"
      and today = "(2024, 1, 1)" and s = "initial_state (2024, 1, 1)"
      and description = "''Sale''" and transaction_date = None and scale = 2]
    C8_validation_rejects [where lines = "[EntryLine ''1000'' 0 True, EntryLine ''3000'' 0 False]"
      and uuid = "\<lambda>n. ''3f2b8c1e-7a90-4d55-8e21-5b6c9d0a1f42''"
      and today = "(2024, 1, 1)" and L = Ledger and description = "''Zero''"]
    C8_validation_rejects [where
      lines = "[EntryLine ''1000'' 100 True, EntryLine ''4000'' (9999 / 100) False]"
      and uuid = "\<lambda>n. ''3f2b8c1e-7a90-4d55-8e21-5b6c9d0a1f42''"
      and today = "(2024, 1, 1)" and L = Ledger and description = "''Sale''" and scale = 2]
    C8_validation_rejects [where lines = "[EntryLine ''1000'' 5 True]"
      and uuid = "\<lambda>n. ''3f2b8c1e-7a90-4d55-8e21-5b6c9d0a1f42''"
      and today = "(2024, 1, 1)" and L = Ledger and description = "''One side''"]
  by (simp add: EntryLine_def sum_decimal_def add_decimal_def round_prec_money fits_def
      on_grid_def vol_def)


subsection \<open>Posting to an account that does not exist\<close>

text \<open>
  Claim C1 at a failing input. A balanced entry debits Cash and credits an account
  that does not exist. In \<^verbatim>\<open>app.py\<close> the call raises "Account not found" and
  records no transaction, but the debit of Cash has been applied and stays. In
  \<^verbatim>\<open>double_entry.py\<close> the call raises \<^verbatim>\<open>KeyError\<close>, the debit of account 1000
  stays applied, and the entry stays in the journal, unposted.
\<close>

theorem C1_unknown_account_partial_posting:
  "post_transaction (2024, 1, 1) (initial_state (2024, 1, 1))
       [(''Cash'', 100)] [(''Petty Cash'', 100)] ''Float'' None
     = (Inl (AccountNotFound ''Petty Cash''),
        \<lparr>accounts = AList.update ''Cash''
           \<lparr>a_name = ''Cash'', a_type = Asset, a_category = ''Current Assets'',
            a_debits = [\<lparr>e_amount = 100, e_description = ''Float'', e_date = (2024, 1, 1)\<rparr>],
            a_credits = [], a_created_at = (2024, 1, 1)\<rparr>
           (accounts (initial_state (2024, 1, 1))),
         transactions = []\<rparr>)
   \<and> map_of (accounts (initial_state (2024, 1, 1))) ''Cash''
     = Some \<lparr>a_name = ''Cash'', a_type = Asset, a_category = ''Current Assets'',
             a_debits = [], a_credits = [], a_created_at = (2024, 1, 1)\<rparr>
   \<and> post_transaction_console (\<lambda>n. ''3f2b8c1e-7a90-4d55-8e21-5b6c9d0a1f42'') (2024, 1, 1) Ledger
       ''Float'' [EntryLine ''1000'' 100 True, EntryLine ''1005'' 100 False]
     = (Inl (KeyError ''1005''),
        Ledger\<lparr>l_accounts := AList.update ''1000''
                 \<lparr>c_code = ''1000'', c_name = ''Cash'', c_type = ''Asset'',
                  c_debits = [(''3f2b8c1e'', 100)], c_credits = []\<rparr>
                 (l_accounts Ledger),
               l_journal :=
                 [(''3f2b8c1e'',
                   \<lparr>je_id = ''3f2b8c1e'', je_date = (2024, 1, 1), je_description = ''Float'',
                    je_lines = [EntryLine ''1000'' 100 True, EntryLine ''1005'' 100 False],
                    je_posted = False\<rparr>)],
               l_drawn := 1\<rparr>)
   \<and> map_of (l_accounts Ledger) ''1000''
     = Some \<lparr>c_code = ''1000'', c_name = ''Cash'', c_type = ''Asset'',
             c_debits = [], c_credits = []\<rparr>"
  by (simp add: post_transaction_def validate_transaction_def initial_state_def
      INITIAL_ACCOUNTS_def Account_def debit_def post_transaction_console_def
      new_journal_entry_def post_entry_def get_account_def Ledger_eq seed_list_def
      EntryLine_def Let_def sum_decimal_def add_decimal_def round_prec_money)


end
